theory Spec2Isabelle
  imports Complex_Main "HOL-Library.AList"
begin

section \<open>Ashtakoota compatibility: the tables and scorers of app/agents/tools.py\<close>

text \<open>
  The model follows \<^verbatim>\<open>compatibility_ashtakoota\<close> (app/agents/tools.py) and
  \<^verbatim>\<open>compute_ashtakoota_raw\<close> (app/services/compatibility_service.py).
  Python dictionaries are association lists in the order of the source's literals
  (Python dictionaries keep insertion order; no literal of the source repeats a key),
  read with \<^const>\<open>map_of\<close>; Python sets of pairs are lists read through \<^const>\<open>set\<close>.
  Signs, asterisms and quarters are Python integers, hence \<^typ>\<open>int\<close>.
  Scores are Python numbers: integers, the float 1.5 of the Tara factor and the floats
  of the friendship block. All of them are multiples of one half below 64, on which
  float arithmetic is exact, so they are modelled as \<^typ>\<open>rat\<close>.
  A failed subscript \<^verbatim>\<open>d[k]\<close> raises \<^verbatim>\<open>KeyError(k)\<close>: the scorers
  return a value of \<open>error + rat\<close>.
\<close>

datatype pykey = KInt int | KStr string | KPair pykey pykey

datatype error = KeyError pykey

text \<open>Sequencing of computations that may raise: the first exception ends the evaluation.\<close>

definition bind :: "error + 'a \<Rightarrow> ('a \<Rightarrow> error + 'b) \<Rightarrow> error + 'b" where
  "bind m f = (case m of Inl e \<Rightarrow> Inl e | Inr v \<Rightarrow> f v)"

text \<open>The subscript \<^verbatim>\<open>d[k]\<close>; \<open>key\<close> renders the key carried by the exception.\<close>

definition getitem :: "('k \<Rightarrow> pykey) \<Rightarrow> ('k \<times> 'v) list \<Rightarrow> 'k \<Rightarrow> error + 'v" where
  "getitem key d k = (case map_of d k of None \<Rightarrow> Inl (KeyError (key k)) | Some v \<Rightarrow> Inr v)"

text \<open>The method \<^verbatim>\<open>d.get(k, default)\<close>.\<close>

definition get :: "('k \<times> 'v) list \<Rightarrow> 'k \<Rightarrow> 'v \<Rightarrow> 'v" where
  "get d k dflt = (case map_of d k of None \<Rightarrow> dflt | Some v \<Rightarrow> v)"

subsection \<open>Reference tables\<close>

definition RASHI_TO_VARNA :: "(int \<times> string) list" where
  "RASHI_TO_VARNA = [(1, ''Kshatriya''), (2, ''Vaishya''), (3, ''Shudra''), (4, ''Brahmin''),
    (5, ''Kshatriya''), (6, ''Vaishya''), (7, ''Shudra''), (8, ''Kshatriya''), (9,
    ''Kshatriya''), (10, ''Vaishya''), (11, ''Shudra''), (12, ''Brahmin'')]"

definition VARNA_HIERARCHY :: "(string \<times> int) list" where
  "VARNA_HIERARCHY = [(''Brahmin'', 4), (''Kshatriya'', 3), (''Vaishya'', 2), (''Shudra'',
    1)]"

definition RASHI_TO_VASHYA :: "(int \<times> string) list" where
  "RASHI_TO_VASHYA = [(1, ''Chatushpada''), (2, ''Chatushpada''), (3, ''Dwipad''), (4,
    ''Jalachar''), (5, ''Chatushpada''), (6, ''Dwipad''), (7, ''Dwipad''), (8, ''Keeta''), (9,
    ''Dwipad''), (10, ''Jalachar''), (11, ''Jalachar''), (12, ''Jalachar'')]"

definition VASHYA_COMPATIBLE :: "(string \<times> string list) list" where
  "VASHYA_COMPATIBLE = [(''Chatushpada'', [''Chatushpada'']), (''Dwipad'', [''Dwipad'']),
    (''Jalachar'', [''Jalachar'']), (''Vanachara'', [''Vanachara'']), (''Keeta'', [''Keeta''])]"

definition VASHYA_SPECIAL :: "((int \<times> int) \<times> rat) list" where
  "VASHYA_SPECIAL = [((1, 5), 2), ((5, 1), 2), ((2, 7), 2), ((7, 2), 2), ((3, 6), 2), ((6, 3),
    2), ((4, 8), 1), ((8, 4), 1), ((9, 12), 2), ((12, 9), 2), ((10, 11), 1), ((11, 10), 1)]"

definition NAKSHATRA_TO_YONI :: "(int \<times> string) list" where
  "NAKSHATRA_TO_YONI = [(1, ''Ashwa''), (2, ''Gaja''), (3, ''Mesha''), (4, ''Sarpa''), (5,
    ''Sarpa''), (6, ''Shwan''), (7, ''Marjara''), (8, ''Mesha''), (9, ''Marjara''), (10,
    ''Mushaka''), (11, ''Mushaka''), (12, ''Gau''), (13, ''Mahisha''), (14, ''Vyaghra''), (15,
    ''Mahisha''), (16, ''Vyaghra''), (17, ''Mriga''), (18, ''Mriga''), (19, ''Shwan''), (20,
    ''Vanara''), (21, ''Nakula''), (22, ''Vanara''), (23, ''Simha''), (24, ''Ashwa''), (25,
    ''Simha''), (26, ''Gau''), (27, ''Gaja'')]"

definition FRIENDLY_PAIRS :: "(string \<times> string) list" where
  "FRIENDLY_PAIRS = [(''Ashva'', ''Sarpa''), (''Ashva'', ''Mriga''), (''Ashva'', ''Vana''),
    (''Gaja'', ''Mesha''), (''Gaja'', ''Mahisha''), (''Gaja'', ''Vana''), (''Mesha'', ''Gau''),
    (''Mesha'', ''Mahisha''), (''Sarpa'', ''Gaja''), (''Sarpa'', ''Ashva''), (''Shvana'',
    ''Vana''), (''Marjara'', ''Mriga''), (''Marjara'', ''Simha''), (''Nakula'', ''Matsya''),
    (''Mushaka'', ''Marjara''), (''Gau'', ''Mesha''), (''Gau'', ''Vyaghra''), (''Mahisha'',
    ''Gaja''), (''Mahisha'', ''Mesha''), (''Vyaghra'', ''Gau''), (''Mriga'', ''Ashva''),
    (''Mriga'', ''Marjara''), (''Vana'', ''Ashva''), (''Vana'', ''Gaja''), (''Vana'',
    ''Shvana''), (''Simha'', ''Marjara''), (''Matsya'', ''Nakula'')]"

definition ENEMY_PAIRS :: "(string \<times> string) list" where
  "ENEMY_PAIRS = [(''Ashva'', ''Mahisha''), (''Gaja'', ''Simha''), (''Mesha'', ''Vana''),
    (''Sarpa'', ''Nakula''), (''Shvana'', ''Mriga''), (''Marjara'', ''Mushaka''), (''Nakula'',
    ''Sarpa''), (''Gau'', ''Vyaghra''), (''Mahisha'', ''Ashva''), (''Vyaghra'', ''Gau''),
    (''Mriga'', ''Shvana''), (''Vana'', ''Mesha''), (''Simha'', ''Gaja''), (''Mushaka'',
    ''Marjara'')]"

definition HIGHLY_INIMICAL_PAIRS :: "(string \<times> string) list" where
  "HIGHLY_INIMICAL_PAIRS = [(''Ashva'', ''Mahisha''), (''Mahisha'', ''Ashva''), (''Gaja'',
    ''Simha''), (''Simha'', ''Gaja''), (''Mesha'', ''Vana''), (''Vana'', ''Mesha''),
    (''Nakula'', ''Sarpa''), (''Sarpa'', ''Nakula''), (''Mriga'', ''Shvana''), (''Shvana'',
    ''Mriga''), (''Marjara'', ''Mushaka''), (''Mushaka'', ''Marjara''), (''Gau'', ''Vyaghra''),
    (''Vyaghra'', ''Gau'')]"

text \<open>
  The module builds \<^verbatim>\<open>YONI_COMPATIBILITY\<close> with two nested loops over
  \<^verbatim>\<open>NAKSHATRA_TO_YONI.values()\<close>; \<open>yoni_cell\<close> is the body of the inner
  loop (the value stored for the pair), and every assignment is a dictionary update.
\<close>

definition yoni_cell :: "string \<Rightarrow> string \<Rightarrow> rat" where
  "yoni_cell y1 y2 =
     (if y1 = y2 then 4
      else if (y1, y2) \<in> set HIGHLY_INIMICAL_PAIRS then 0
      else if (y1, y2) \<in> set FRIENDLY_PAIRS \<or> (y2, y1) \<in> set FRIENDLY_PAIRS then 3
      else if (y1, y2) \<in> set ENEMY_PAIRS \<or> (y2, y1) \<in> set ENEMY_PAIRS then 1
      else 2)"

definition YONI_COMPATIBILITY :: "(string \<times> string) \<rightharpoonup> rat" where
  "YONI_COMPATIBILITY =
     fold (\<lambda>y1 m. fold (\<lambda>y2 m'. m'((y1, y2) \<mapsto> yoni_cell y1 y2)) (map snd NAKSHATRA_TO_YONI) m)
       (map snd NAKSHATRA_TO_YONI) Map.empty"

definition RASHI_LORDS :: "(int \<times> string) list" where
  "RASHI_LORDS = [(1, ''Mars''), (2, ''Venus''), (3, ''Mercury''), (4, ''Moon''), (5,
    ''Sun''), (6, ''Mercury''), (7, ''Venus''), (8, ''Mars''), (9, ''Jupiter''), (10,
    ''Saturn''), (11, ''Saturn''), (12, ''Jupiter'')]"

definition PLANET_RELATIONSHIPS :: "(string \<times> (string \<times> string list) list) list" where
  "PLANET_RELATIONSHIPS = [(''Sun'', [(''friends'', [''Moon'', ''Mars'', ''Jupiter'']),
    (''enemies'', [''Venus'', ''Saturn'']), (''neutral'', [''Mercury''])]), (''Moon'',
    [(''friends'', [''Sun'', ''Mercury'']), (''enemies'', []), (''neutral'', [''Mars'',
    ''Jupiter'', ''Venus'', ''Saturn''])]), (''Mars'', [(''friends'', [''Sun'', ''Moon'',
    ''Jupiter'']), (''enemies'', [''Mercury'']), (''neutral'', [''Venus'', ''Saturn''])]),
    (''Mercury'', [(''friends'', [''Sun'', ''Venus'']), (''enemies'', [''Moon'']), (''neutral'',
    [''Mars'', ''Jupiter'', ''Saturn''])]), (''Jupiter'', [(''friends'', [''Sun'', ''Moon'',
    ''Mars'']), (''enemies'', [''Mercury'', ''Venus'']), (''neutral'', [''Saturn''])]),
    (''Venus'', [(''friends'', [''Mercury'', ''Saturn'']), (''enemies'', [''Sun'', ''Moon'']),
    (''neutral'', [''Mars'', ''Jupiter''])]), (''Saturn'', [(''friends'', [''Mercury'',
    ''Venus'']), (''enemies'', [''Sun'', ''Moon'', ''Mars'']), (''neutral'', [''Jupiter''])])]"

definition NAKSHATRA_TO_GANA :: "(int \<times> string) list" where
  "NAKSHATRA_TO_GANA = [(1, ''Deva''), (2, ''Manushya''), (3, ''Rakshasa''), (4,
    ''Manushya''), (5, ''Deva''), (6, ''Manushya''), (7, ''Deva''), (8, ''Deva''), (9,
    ''Rakshasa''), (10, ''Rakshasa''), (11, ''Manushya''), (12, ''Manushya''), (13, ''Deva''),
    (14, ''Rakshasa''), (15, ''Deva''), (16, ''Rakshasa''), (17, ''Deva''), (18, ''Rakshasa''),
    (19, ''Rakshasa''), (20, ''Manushya''), (21, ''Manushya''), (22, ''Deva''), (23,
    ''Rakshasa''), (24, ''Rakshasa''), (25, ''Manushya''), (26, ''Manushya''), (27, ''Deva'')]"

definition BHAKOOT_MATRIX :: "((int \<times> int) \<times> rat) list" where
  "BHAKOOT_MATRIX = [((1, 1), 7), ((1, 2), 0), ((1, 3), 7), ((1, 4), 7), ((1, 5), 0), ((1, 6),
    0), ((1, 7), 7), ((1, 8), 0), ((1, 9), 0), ((1, 10), 7), ((1, 11), 7), ((1, 12), 0), ((2,
    1), 0), ((2, 2), 7), ((2, 3), 0), ((2, 4), 7), ((2, 5), 7), ((2, 6), 0), ((2, 7), 0), ((2,
    8), 7), ((2, 9), 0), ((2, 10), 0), ((2, 11), 7), ((2, 12), 7), ((3, 1), 7), ((3, 2), 0),
    ((3, 3), 7), ((3, 4), 0), ((3, 5), 7), ((3, 6), 7), ((3, 7), 0), ((3, 8), 0), ((3, 9), 7),
    ((3, 10), 0), ((3, 11), 0), ((3, 12), 7), ((4, 1), 7), ((4, 2), 7), ((4, 3), 0), ((4, 4),
    7), ((4, 5), 0), ((4, 6), 7), ((4, 7), 7), ((4, 8), 0), ((4, 9), 0), ((4, 10), 7), ((4, 11),
    0), ((4, 12), 0), ((5, 1), 0), ((5, 2), 7), ((5, 3), 7), ((5, 4), 0), ((5, 5), 7), ((5, 6),
    0), ((5, 7), 7), ((5, 8), 7), ((5, 9), 0), ((5, 10), 0), ((5, 11), 7), ((5, 12), 0), ((6,
    1), 0), ((6, 2), 0), ((6, 3), 7), ((6, 4), 7), ((6, 5), 0), ((6, 6), 7), ((6, 7), 0), ((6,
    8), 7), ((6, 9), 7), ((6, 10), 0), ((6, 11), 0), ((6, 12), 7), ((7, 1), 7), ((7, 2), 0),
    ((7, 3), 0), ((7, 4), 7), ((7, 5), 7), ((7, 6), 0), ((7, 7), 7), ((7, 8), 0), ((7, 9), 7),
    ((7, 10), 7), ((7, 11), 0), ((7, 12), 0), ((8, 1), 0), ((8, 2), 7), ((8, 3), 0), ((8, 4),
    0), ((8, 5), 7), ((8, 6), 7), ((8, 7), 0), ((8, 8), 7), ((8, 9), 0), ((8, 10), 7), ((8, 11),
    7), ((8, 12), 0), ((9, 1), 0), ((9, 2), 0), ((9, 3), 7), ((9, 4), 0), ((9, 5), 0), ((9, 6),
    7), ((9, 7), 7), ((9, 8), 0), ((9, 9), 7), ((9, 10), 0), ((9, 11), 7), ((9, 12), 7), ((10,
    1), 7), ((10, 2), 0), ((10, 3), 0), ((10, 4), 7), ((10, 5), 0), ((10, 6), 0), ((10, 7), 7),
    ((10, 8), 7), ((10, 9), 0), ((10, 10), 7), ((10, 11), 0), ((10, 12), 7), ((11, 1), 7), ((11,
    2), 7), ((11, 3), 0), ((11, 4), 0), ((11, 5), 7), ((11, 6), 0), ((11, 7), 0), ((11, 8), 7),
    ((11, 9), 7), ((11, 10), 0), ((11, 11), 7), ((11, 12), 0), ((12, 1), 0), ((12, 2), 7), ((12,
    3), 7), ((12, 4), 0), ((12, 5), 0), ((12, 6), 7), ((12, 7), 0), ((12, 8), 0), ((12, 9), 7),
    ((12, 10), 7), ((12, 11), 0), ((12, 12), 7)]"

definition NAKSHATRA_TO_NADI :: "(int \<times> string) list" where
  "NAKSHATRA_TO_NADI = [(1, ''Adi''), (2, ''Madhya''), (3, ''Antya''), (4, ''Adi''), (5,
    ''Madhya''), (6, ''Antya''), (7, ''Adi''), (8, ''Madhya''), (9, ''Antya''), (10, ''Adi''),
    (11, ''Madhya''), (12, ''Antya''), (13, ''Adi''), (14, ''Madhya''), (15, ''Antya''), (16,
    ''Adi''), (17, ''Madhya''), (18, ''Antya''), (19, ''Adi''), (20, ''Madhya''), (21,
    ''Antya''), (22, ''Adi''), (23, ''Madhya''), (24, ''Antya''), (25, ''Adi''), (26,
    ''Madhya''), (27, ''Antya'')]"

subsection \<open>The eight scorers\<close>

text \<open>The scorers are the local functions of \<^verbatim>\<open>compatibility_ashtakoota\<close>, in its order.\<close>

definition varna_score :: "int \<Rightarrow> int \<Rightarrow> error + rat" where
  "varna_score r1 r2 =
     bind (getitem KInt RASHI_TO_VARNA r1) (\<lambda>v1.
     bind (getitem KInt RASHI_TO_VARNA r2) (\<lambda>v2.
     if v1 = v2 then Inr 1
     else bind (getitem KStr VARNA_HIERARCHY v1) (\<lambda>h1.
          bind (getitem KStr VARNA_HIERARCHY v2) (\<lambda>h2.
          if h1 \<ge> h2 then Inr 1 else Inr 0))))"

definition vashya_score :: "int \<Rightarrow> int \<Rightarrow> error + rat" where
  "vashya_score r1 r2 =
     (if map_of VASHYA_SPECIAL (r1, r2) \<noteq> None
      then getitem (\<lambda>(a, b). KPair (KInt a) (KInt b)) VASHYA_SPECIAL (r1, r2)
      else bind (getitem KInt RASHI_TO_VASHYA r1) (\<lambda>v1.
           bind (getitem KInt RASHI_TO_VASHYA r2) (\<lambda>v2.
           if v1 = v2 \<or> v2 \<in> set (get VASHYA_COMPATIBLE v1 []) then Inr 2 else Inr 1)))"

text \<open>Python's \<^verbatim>\<open>%\<close> with a positive modulus is \<^const>\<open>modulo\<close> on \<^typ>\<open>int\<close>.\<close>

definition favorable :: "int list" where
  "favorable = [2, 4, 6, 8, 9]"

definition tara_score :: "int \<Rightarrow> int \<Rightarrow> rat" where
  "tara_score boy_nakshatra girl_nakshatra =
     (let d1 = (boy_nakshatra - girl_nakshatra) mod 27;
          d1 = (if d1 = 0 then 27 else d1);
          rem1 = d1 mod 9;
          rem1 = (if rem1 = 0 then 9 else rem1);
          d2 = (girl_nakshatra - boy_nakshatra) mod 27;
          d2 = (if d2 = 0 then 27 else d2);
          rem2 = d2 mod 9;
          rem2 = (if rem2 = 0 then 9 else rem2);
          even1 = (rem1 \<in> set favorable);
          even2 = (rem2 \<in> set favorable)
      in if even1 \<and> even2 then 3
         else if even1 \<or> even2 then 3 / 2
         else 0)"

definition yoni_score :: "int \<Rightarrow> int \<Rightarrow> error + rat" where
  "yoni_score n1 n2 =
     bind (getitem KInt NAKSHATRA_TO_YONI n1) (\<lambda>y1.
     bind (getitem KInt NAKSHATRA_TO_YONI n2) (\<lambda>y2.
     case YONI_COMPATIBILITY (y1, y2) of
       Some v \<Rightarrow> Inr v
     | None \<Rightarrow> (case YONI_COMPATIBILITY (y2, y1) of
                  Some v \<Rightarrow> Inr v
                | None \<Rightarrow> Inr 2)))"

definition maitri_score :: "int \<Rightarrow> int \<Rightarrow> error + rat" where
  "maitri_score r1 r2 =
     bind (getitem KInt RASHI_LORDS r1) (\<lambda>lord1.
     bind (getitem KInt RASHI_LORDS r2) (\<lambda>lord2.
     if lord1 = lord2 then Inr 5
     else bind (getitem KStr PLANET_RELATIONSHIPS lord1) (\<lambda>rel.
          bind (getitem KStr rel ''friends'') (\<lambda>friends.
          if lord2 \<in> set friends then Inr 4
          else bind (getitem KStr rel ''neutral'') (\<lambda>neutral.
               if lord2 \<in> set neutral then Inr 3
               else bind (getitem KStr rel ''enemies'') (\<lambda>enemies.
                    if lord2 \<in> set enemies then Inr 1 else Inr 0))))))"

definition scoring_table :: "((string \<times> string) \<times> rat) list" where
  "scoring_table =
     [((''Deva'', ''Deva''), 6),
      ((''Deva'', ''Manushya''), 6),
      ((''Deva'', ''Rakshasa''), 0),
      ((''Manushya'', ''Deva''), 5),
      ((''Manushya'', ''Manushya''), 6),
      ((''Manushya'', ''Rakshasa''), 1),
      ((''Rakshasa'', ''Deva''), 1),
      ((''Rakshasa'', ''Manushya''), 0),
      ((''Rakshasa'', ''Rakshasa''), 6)]"

text \<open>
  The source names the parameters of \<open>gana_score\<close> girl first. Its call to the logger
  has no effect on the result and is left out.
\<close>

definition gana_score :: "int \<Rightarrow> int \<Rightarrow> error + rat" where
  "gana_score girl_nakshatra boy_nakshatra =
     bind (getitem KInt NAKSHATRA_TO_GANA girl_nakshatra) (\<lambda>g1.
     bind (getitem KInt NAKSHATRA_TO_GANA boy_nakshatra) (\<lambda>g2.
     Inr (get scoring_table (g1, g2) 0)))"

definition bhakoot_score :: "int \<Rightarrow> int \<Rightarrow> rat" where
  "bhakoot_score r1 r2 = get BHAKOOT_MATRIX (r1, r2) 0"

definition nadi_score :: "int \<Rightarrow> int \<Rightarrow> error + rat" where
  "nadi_score n1 n2 =
     bind (getitem KInt NAKSHATRA_TO_NADI n1) (\<lambda>nadi1.
     bind (getitem KInt NAKSHATRA_TO_NADI n2) (\<lambda>nadi2.
     Inr (if nadi1 \<noteq> nadi2 then 8 else 0)))"

subsection \<open>Dosha cancellations\<close>

definition nadi_dosha_cancel :: "int \<Rightarrow> int \<Rightarrow> int \<Rightarrow> int \<Rightarrow> bool" where
  "nadi_dosha_cancel r1 n1 r2 n2 \<longleftrightarrow>
     (r1 = r2 \<and> n1 \<noteq> n2) \<or> (n1 = n2 \<and> r1 \<noteq> r2) \<or> (n1 = n2 \<and> r1 = r2)"

definition bhakoot_dosha_cancel :: "int \<Rightarrow> int \<Rightarrow> bool" where
  "bhakoot_dosha_cancel r1 r2 \<longleftrightarrow> r1 = r2"

subsection \<open>The result dictionary\<close>

text \<open>
  The function returns a dictionary with the keys \<^verbatim>\<open>scores\<close>, \<^verbatim>\<open>total\<close>,
  \<^verbatim>\<open>explanation\<close> and \<^verbatim>\<open>dosha_cancellation\<close>; its values are a dictionary of
  numbers, a number, a dictionary of strings and a dictionary of booleans.
\<close>

datatype pyval =
    Num rat
  | Scores "(string \<times> rat) list"
  | Notes "(string \<times> string) list"
  | Flags "(string \<times> bool) list"

type_synonym pydict = "(string \<times> pyval) list"

definition explanation0 :: "(string \<times> string) list" where
  "explanation0 =
     [(''Varna'', ''Varna (Personality): Based on Moon sign caste classification.''),
      (''Vashya'', ''Vashya (Dominance/Mutual Influence): Based on Rashi mutual influence.''),
      (''Tara'', ''Tara (Health): Based on Nakshatra distance.''),
      (''Yoni'', ''Yoni (Sexual): Based on Nakshatra yoni animal compatibility.''),
      (''Maitri'', ''Maitri (Friendship): Based on Moon lord friendship.''),
      (''Gana'', ''Gana (Temperament): Based on Nakshatra gana type.''),
      (''Bhakoot'', ''Bhakoot (Emotional): Based on Moon sign distance matrix.''),
      (''Nadi'', ''Nadi (Future Generation): Based on Nakshatra nadi type.'')]"

text \<open>
  \<^verbatim>\<open>compatibility_ashtakoota\<close>: the dictionary \<open>scores\<close> is built in the order of
  its literal, so the first scorer that raises decides the exception. The quarters
  \<open>boy_pada\<close> and \<open>girl_pada\<close> are parameters that the body never reads.
\<close>

definition compatibility_ashtakoota ::
    "int \<Rightarrow> int \<Rightarrow> int \<Rightarrow> int \<Rightarrow> int \<Rightarrow> int \<Rightarrow> error + pydict" where
  "compatibility_ashtakoota boy_rashi boy_nakshatra boy_pada girl_rashi girl_nakshatra girl_pada =
     bind (varna_score boy_rashi girl_rashi) (\<lambda>varna.
     bind (vashya_score boy_rashi girl_rashi) (\<lambda>vashya.
     bind (Inr (tara_score boy_nakshatra girl_nakshatra)) (\<lambda>tara.
     bind (yoni_score boy_nakshatra girl_nakshatra) (\<lambda>yoni.
     bind (maitri_score boy_rashi girl_rashi) (\<lambda>maitri.
     bind (gana_score girl_nakshatra boy_nakshatra) (\<lambda>gana.
     bind (Inr (bhakoot_score boy_rashi girl_rashi)) (\<lambda>bhakoot.
     bind (nadi_score boy_nakshatra girl_nakshatra) (\<lambda>nadi.
     let scores = [(''Varna'', varna), (''Vashya'', vashya), (''Tara'', tara), (''Yoni'', yoni),
                   (''Maitri'', maitri), (''Gana'', gana), (''Bhakoot'', bhakoot), (''Nadi'', nadi)];
         total = sum_list (map snd scores);
         nadi_cancel = nadi_dosha_cancel boy_rashi boy_nakshatra girl_rashi girl_nakshatra;
         bhakoot_cancel = bhakoot_dosha_cancel boy_rashi girl_rashi
     in Inr [(''scores'', Scores scores),
             (''total'', Num total),
             (''explanation'', Notes explanation0),
             (''dosha_cancellation'', Flags [(''Nadi'', nadi_cancel), (''Bhakoot'', bhakoot_cancel)])]
     ))))))))"

subsection \<open>Role resolution and the friendship block of compute_ashtakoota_raw\<close>

text \<open>
  \<^verbatim>\<open>compute_ashtakoota_raw\<close> (app/services/compatibility_service.py) first checks the
  report kind, then the birth data of both people, geocodes both birth places and asks
  \<^verbatim>\<open>get_panchanga\<close> for the lunar position of each; it returns \<^verbatim>\<open>None\<close>
  when birth data or coordinates are missing. Geocoding and the ephemeris are external
  services; the model starts where both have answered and takes the two answers as
  parameters (the fields of the answer that the function reads).
\<close>

record panchanga =
  moon_rashi :: int
  nakshatra :: int
  pada :: int

definition run_ak :: "panchanga \<Rightarrow> panchanga \<Rightarrow> error + pydict" where
  "run_ak boy girl =
     compatibility_ashtakoota (moon_rashi boy) (nakshatra boy) (pada boy)
       (moon_rashi girl) (nakshatra girl) (pada girl)"

definition hetero_love :: "string option \<Rightarrow> string option \<Rightarrow> string option \<Rightarrow> bool" where
  "hetero_love compatibility_type user_gender other_gender \<longleftrightarrow>
     compatibility_type = Some ''love''
     \<and> user_gender \<in> {Some ''male'', Some ''female''}
     \<and> other_gender \<in> {Some ''male'', Some ''female''}
     \<and> user_gender \<noteq> other_gender"

text \<open>
  \<^verbatim>\<open>ak.get('total', 0)\<close>; both dictionaries compared come from
  \<^verbatim>\<open>compatibility_ashtakoota\<close>, where the entry is a number.
\<close>

definition get_total :: "pydict \<Rightarrow> rat" where
  "get_total ak = (case map_of ak ''total'' of Some (Num t) \<Rightarrow> t | _ \<Rightarrow> 0)"

text \<open>
  The block under \<^verbatim>\<open>if compatibility_type == 'friendship' and ... 'scores' in ak\<close>.
  The dictionaries are changed in place (\<open>scores\<close> is the object stored in \<open>ak\<close>), and an
  assignment \<^verbatim>\<open>d[k] = v\<close> is \<^const>\<open>AList.update\<close> (the key keeps its place, a
  new key goes to the end). An exception inside the block is swallowed by its
  \<^verbatim>\<open>except Exception: pass\<close>, which leaves the changes made before it: these are
  the branches for an entry that is not a dictionary of the expected kind. They are never
  taken on a dictionary returned by \<^verbatim>\<open>compatibility_ashtakoota\<close>.
\<close>

definition friendship_block :: "pydict \<Rightarrow> pydict" where
  "friendship_block ak =
     (case map_of ak ''scores'' of
        None \<Rightarrow> ak
      | Some (Scores scores) \<Rightarrow>
          (let yoni_score = get scores ''Yoni'' 0;
               bhakoot_score = get scores ''Bhakoot'' 0;
               scores = AList.update ''Bhakoot'' (min 7 (bhakoot_score + yoni_score)) scores;
               scores = AList.update ''Yoni'' 0 scores;
               ak = AList.update ''scores'' (Scores scores) ak
           in case map_of ak ''explanation'' of
                None \<Rightarrow> AList.update ''total'' (Num (sum_list (map snd scores))) ak
              | Some (Notes explanation) \<Rightarrow>
                  (let explanation = AList.update ''Yoni''
                         ''Not applicable for friendship. Yoni folded under emotional closeness.''
                         explanation;
                       explanation = AList.update ''Bhakoot''
                         ''Bhakoot (Emotional): Includes Yoni-derived closeness for friendship.''
                         explanation;
                       explanation = AList.update ''Vashya''
                         ''Vashya (Mutual Influence): Based on Rashi mutual influence for friendship compatibility.''
                         explanation;
                       ak = AList.update ''explanation'' (Notes explanation) ak
                   in AList.update ''total'' (Num (sum_list (map snd scores))) ak)
              | Some _ \<Rightarrow> ak)
      | Some _ \<Rightarrow> ak)"

definition compute_ashtakoota_raw ::
    "string option \<Rightarrow> string option \<Rightarrow> string option \<Rightarrow> panchanga \<Rightarrow> panchanga
       \<Rightarrow> error + pydict option" where
  "compute_ashtakoota_raw compatibility_type user_gender other_gender user_details other_details =
     (if compatibility_type \<notin> {Some ''love'', Some ''friendship''} then Inr None
      else
        bind (if hetero_love compatibility_type user_gender other_gender
              then (if user_gender = Some ''male''
                    then run_ak user_details other_details
                    else run_ak other_details user_details)
              else bind (run_ak user_details other_details) (\<lambda>a_first.
                   bind (run_ak other_details user_details) (\<lambda>a_swap.
                   Inr (if get_total a_first \<ge> get_total a_swap then a_first else a_swap))))
          (\<lambda>ak. Inr (Some (if compatibility_type = Some ''friendship''
                             then friendship_block ak else ak))))"


section \<open>Notions used to state the properties\<close>

subsection \<open>Valid profiles\<close>

definition valid_rashi :: "int \<Rightarrow> bool" where
  "valid_rashi r \<longleftrightarrow> 1 \<le> r \<and> r \<le> 12"

definition valid_nakshatra :: "int \<Rightarrow> bool" where
  "valid_nakshatra n \<longleftrightarrow> 1 \<le> n \<and> n \<le> 27"

definition valid_pada :: "int \<Rightarrow> bool" where
  "valid_pada p \<longleftrightarrow> 1 \<le> p \<and> p \<le> 4"

definition valid_profile :: "panchanga \<Rightarrow> bool" where
  "valid_profile p \<longleftrightarrow>
     valid_rashi (moon_rashi p) \<and> valid_nakshatra (nakshatra p) \<and> valid_pada (pada p)"


subsection \<open>Reading a result\<close>

text \<open>
  \<open>score_of ak name\<close> is \<^verbatim>\<open>ak['scores'][name]\<close>, \<open>total_of ak\<close> is
  \<^verbatim>\<open>ak['total']\<close>, \<open>explanation_of ak name\<close> is \<^verbatim>\<open>ak['explanation'][name]\<close>
  and \<open>dosha_of ak name\<close> is \<^verbatim>\<open>ak['dosha_cancellation'][name]\<close>; each is
  \<open>None\<close> when an entry is missing. \<open>returned r\<close> is the dictionary that
  \<^verbatim>\<open>compute_ashtakoota_raw\<close> returned, and the empty dictionary when it raised or
  returned \<^verbatim>\<open>None\<close>.
\<close>

definition score_of :: "pydict \<Rightarrow> string \<Rightarrow> rat option" where
  "score_of ak name = (case map_of ak ''scores'' of Some (Scores s) \<Rightarrow> map_of s name | _ \<Rightarrow> None)"

definition total_of :: "pydict \<Rightarrow> rat option" where
  "total_of ak = (case map_of ak ''total'' of Some (Num t) \<Rightarrow> Some t | _ \<Rightarrow> None)"

definition explanation_of :: "pydict \<Rightarrow> string \<Rightarrow> string option" where
  "explanation_of ak name =
     (case map_of ak ''explanation'' of Some (Notes e) \<Rightarrow> map_of e name | _ \<Rightarrow> None)"

definition dosha_of :: "pydict \<Rightarrow> string \<Rightarrow> bool option" where
  "dosha_of ak name =
     (case map_of ak ''dosha_cancellation'' of Some (Flags f) \<Rightarrow> map_of f name | _ \<Rightarrow> None)"

definition returned :: "error + pydict option \<Rightarrow> pydict" where
  "returned r = (case r of Inr (Some ak) \<Rightarrow> ak | _ \<Rightarrow> [])"

text \<open>The dictionary of the return statement of \<^verbatim>\<open>compatibility_ashtakoota\<close>.\<close>

definition ak_dict ::
    "rat \<Rightarrow> rat \<Rightarrow> rat \<Rightarrow> rat \<Rightarrow> rat \<Rightarrow> rat \<Rightarrow> rat \<Rightarrow> rat \<Rightarrow> bool \<Rightarrow> bool \<Rightarrow> pydict" where
  "ak_dict va vs ta yo ma ga bh na nadi_cancel bhakoot_cancel =
     [(''scores'', Scores [(''Varna'', va), (''Vashya'', vs), (''Tara'', ta), (''Yoni'', yo),
                           (''Maitri'', ma), (''Gana'', ga), (''Bhakoot'', bh), (''Nadi'', na)]),
      (''total'', Num (va + vs + ta + yo + ma + ga + bh + na)),
      (''explanation'', Notes explanation0),
      (''dosha_cancellation'', Flags [(''Nadi'', nadi_cancel), (''Bhakoot'', bhakoot_cancel)])]"

text \<open>The names that \<open>NAKSHATRA_TO_YONI\<close> gives to the animal classes.\<close>

definition yoni_names :: "string list" where
  "yoni_names = map snd NAKSHATRA_TO_YONI"

subsection \<open>The Tara rule in the words of the specification\<close>

definition step_count :: "int \<Rightarrow> int \<Rightarrow> int" where
  "step_count x y = (if (x - y) mod 27 = 0 then 27 else (x - y) mod 27)"

definition remainder9 :: "int \<Rightarrow> int" where
  "remainder9 d = (if d mod 9 = 0 then 9 else d mod 9)"

definition favorable_remainder :: "int \<Rightarrow> bool" where
  "favorable_remainder r \<longleftrightarrow> r \<in> {2, 4, 6, 8, 9}"

definition tara_spec :: "int \<Rightarrow> int \<Rightarrow> rat" where
  "tara_spec primary secondary =
     (let rem1 = remainder9 (step_count primary secondary);
          rem2 = remainder9 (step_count secondary primary)
      in if favorable_remainder rem1 \<and> favorable_remainder rem2 then 3
         else if favorable_remainder rem1 \<noteq> favorable_remainder rem2 then 3 / 2
         else 0)"

subsection \<open>The documented score sets\<close>

text \<open>
  The sets of the specification for a Romantic result, and the sets that hold for a
  Friendship result, where Yoni is 0 and Bhakoot has taken Yoni in.
\<close>

definition documented_sets_romantic :: "pydict \<Rightarrow> bool" where
  "documented_sets_romantic ak \<longleftrightarrow>
     score_of ak ''Varna'' \<in> {Some 0, Some 1}
     \<and> score_of ak ''Vashya'' \<in> {Some 1, Some 2}
     \<and> score_of ak ''Tara'' \<in> {Some 0, Some (3 / 2), Some 3}
     \<and> score_of ak ''Yoni'' \<in> {Some 0, Some 1, Some 2, Some 3, Some 4}
     \<and> score_of ak ''Maitri'' \<in> {Some 0, Some 1, Some 3, Some 4, Some 5}
     \<and> score_of ak ''Gana'' \<in> {Some 0, Some 1, Some 5, Some 6}
     \<and> score_of ak ''Bhakoot'' \<in> {Some 0, Some 7}
     \<and> score_of ak ''Nadi'' \<in> {Some 0, Some 8}
     \<and> (\<exists>t. total_of ak = Some t \<and> 0 \<le> t \<and> t \<le> 36)"

definition documented_sets_friendship :: "pydict \<Rightarrow> bool" where
  "documented_sets_friendship ak \<longleftrightarrow>
     score_of ak ''Varna'' \<in> {Some 0, Some 1}
     \<and> score_of ak ''Vashya'' \<in> {Some 1, Some 2}
     \<and> score_of ak ''Tara'' \<in> {Some 0, Some (3 / 2), Some 3}
     \<and> score_of ak ''Yoni'' = Some 0
     \<and> score_of ak ''Maitri'' \<in> {Some 0, Some 1, Some 3, Some 4, Some 5}
     \<and> score_of ak ''Gana'' \<in> {Some 0, Some 1, Some 5, Some 6}
     \<and> score_of ak ''Bhakoot'' \<in> {Some 0, Some 1, Some 2, Some 3, Some 4, Some 7}
     \<and> score_of ak ''Nadi'' \<in> {Some 0, Some 8}
     \<and> (\<exists>t. total_of ak = Some t \<and> 0 \<le> t \<and> t \<le> 32)"


section \<open>Sequencing and subscripts\<close>

lemma bind_Inr [simp]: "bind (Inr v) f = f v"
  by (simp add: bind_def)

lemma bind_Inl [simp]: "bind (Inl e) f = Inl e"
  by (simp add: bind_def)

lemma getitem_Some: "map_of d k = Some v \<Longrightarrow> getitem key d k = Inr v"
  by (simp add: getitem_def)

lemma getitem_None: "map_of d k = None \<Longrightarrow> getitem key d k = Inl (KeyError (key k))"
  by (simp add: getitem_def)

lemma get_range: "get d k dflt = dflt \<or> get d k dflt \<in> snd ` set d"
proof (cases "map_of d k")
  case None
  then show ?thesis by (simp add: get_def)
next
  case (Some v)
  then have "(k, v) \<in> set d" by (rule map_of_SomeD)
  then have "v \<in> snd ` set d" by force
  with Some show ?thesis by (simp add: get_def)
qed

section \<open>The domains of the tables keyed by sign and by asterism\<close>

lemma upto12: "[1..12] = [1, 2, 3, 4, 5, 6, 7, 8, 9, 10, 11, 12 :: int]"
  by code_simp

lemma upto27:
  "[1..27] = [1, 2, 3, 4, 5, 6, 7, 8, 9, 10, 11, 12, 13, 14, 15, 16, 17, 18, 19, 20,
              21, 22, 23, 24, 25, 26, 27 :: int]"
  by code_simp

lemma key_iff:
  assumes "map fst d = [lo..hi]"
  shows "map_of d k = None \<longleftrightarrow> \<not> (lo \<le> k \<and> k \<le> hi)"
proof -
  have "fst ` set d = set (map fst d)" by simp
  also have "\<dots> = {lo..hi}" by (simp add: assms)
  finally show ?thesis by (auto simp: map_of_eq_None_iff)
qed

lemma RASHI_TO_VARNA_keys: "map_of RASHI_TO_VARNA r = None \<longleftrightarrow> \<not> valid_rashi r"
  unfolding valid_rashi_def by (rule key_iff) (simp add: RASHI_TO_VARNA_def upto12)

lemma RASHI_TO_VASHYA_keys: "map_of RASHI_TO_VASHYA r = None \<longleftrightarrow> \<not> valid_rashi r"
  unfolding valid_rashi_def by (rule key_iff) (simp add: RASHI_TO_VASHYA_def upto12)

lemma RASHI_LORDS_keys: "map_of RASHI_LORDS r = None \<longleftrightarrow> \<not> valid_rashi r"
  unfolding valid_rashi_def by (rule key_iff) (simp add: RASHI_LORDS_def upto12)

lemma NAKSHATRA_TO_YONI_keys: "map_of NAKSHATRA_TO_YONI n = None \<longleftrightarrow> \<not> valid_nakshatra n"
  unfolding valid_nakshatra_def by (rule key_iff) (simp add: NAKSHATRA_TO_YONI_def upto27)

lemma NAKSHATRA_TO_GANA_keys: "map_of NAKSHATRA_TO_GANA n = None \<longleftrightarrow> \<not> valid_nakshatra n"
  unfolding valid_nakshatra_def by (rule key_iff) (simp add: NAKSHATRA_TO_GANA_def upto27)

lemma NAKSHATRA_TO_NADI_keys: "map_of NAKSHATRA_TO_NADI n = None \<longleftrightarrow> \<not> valid_nakshatra n"
  unfolding valid_nakshatra_def by (rule key_iff) (simp add: NAKSHATRA_TO_NADI_def upto27)

lemma map_of_value: "map_of d k = Some v \<Longrightarrow> v \<in> snd ` set d"
  by (force dest: map_of_SomeD)

lemma RASHI_TO_VARNA_values:
  "map_of RASHI_TO_VARNA r = Some v \<Longrightarrow> v \<in> {''Kshatriya'', ''Vaishya'', ''Shudra'', ''Brahmin''}"
  by (drule map_of_value) (auto simp: RASHI_TO_VARNA_def)

lemma RASHI_LORDS_values:
  "map_of RASHI_LORDS r = Some v \<Longrightarrow>
     v \<in> {''Mars'', ''Venus'', ''Mercury'', ''Moon'', ''Sun'', ''Jupiter'', ''Saturn''}"
  by (drule map_of_value) (auto simp: RASHI_LORDS_def)

lemma NAKSHATRA_TO_GANA_values:
  "map_of NAKSHATRA_TO_GANA n = Some v \<Longrightarrow> v \<in> {''Deva'', ''Manushya'', ''Rakshasa''}"
  by (drule map_of_value) (auto simp: NAKSHATRA_TO_GANA_def)

section \<open>The range of each scorer\<close>

lemma varna_score_range:
  assumes "valid_rashi r1" "valid_rashi r2"
  shows "varna_score r1 r2 = Inr 0 \<or> varna_score r1 r2 = Inr 1"
proof -
  from assms obtain v1 v2 where
    v: "map_of RASHI_TO_VARNA r1 = Some v1" "map_of RASHI_TO_VARNA r2 = Some v2"
    using RASHI_TO_VARNA_keys by fastforce
  have h: "\<exists>h. map_of VARNA_HIERARCHY x = Some h"
    if "x \<in> {''Kshatriya'', ''Vaishya'', ''Shudra'', ''Brahmin''}" for x
    using that by (auto simp: VARNA_HIERARCHY_def)
  from h [OF RASHI_TO_VARNA_values [OF v(1)]] obtain h1 where
    h1: "map_of VARNA_HIERARCHY v1 = Some h1" ..
  from h [OF RASHI_TO_VARNA_values [OF v(2)]] obtain h2 where
    h2: "map_of VARNA_HIERARCHY v2 = Some h2" ..
  note h1 h2
  with v show ?thesis
    by (simp add: varna_score_def getitem_Some)
qed

lemma vashya_score_range:
  assumes "valid_rashi r1" "valid_rashi r2"
  shows "vashya_score r1 r2 = Inr 1 \<or> vashya_score r1 r2 = Inr 2"
proof (cases "map_of VASHYA_SPECIAL (r1, r2)")
  case None
  from assms obtain v1 v2 where
    "map_of RASHI_TO_VASHYA r1 = Some v1" "map_of RASHI_TO_VASHYA r2 = Some v2"
    using RASHI_TO_VASHYA_keys by fastforce
  with None show ?thesis
    by (simp add: vashya_score_def getitem_Some)
next
  case (Some v)
  then have "v \<in> snd ` set VASHYA_SPECIAL" by (rule map_of_value)
  then have "v = 1 \<or> v = 2" by (auto simp: VASHYA_SPECIAL_def)
  with Some show ?thesis
    by (auto simp: vashya_score_def getitem_Some)
qed

lemma tara_score_range: "tara_score n1 n2 \<in> {0, 3 / 2, 3}"
  by (simp add: tara_score_def Let_def)

lemma yoni_cell_range: "yoni_cell y1 y2 \<in> {0, 1, 2, 3, 4}"
  by (simp add: yoni_cell_def)

text \<open>
  The dictionary built by the two loops: a pair is a key exactly when both names are
  values of \<open>NAKSHATRA_TO_YONI\<close>, and its value is the one \<open>yoni_cell\<close> gives
  (a later assignment to the same pair stores the same value again).
\<close>

lemma fold_inner:
  "fold (\<lambda>y2 m'. m'((y1, y2) \<mapsto> f y1 y2)) ys m (a, b) =
     (if a = y1 \<and> b \<in> set ys then Some (f y1 b) else m (a, b))"
  by (induction ys arbitrary: m) auto

lemma fold_outer:
  "fold (\<lambda>y1 m. fold (\<lambda>y2 m'. m'((y1, y2) \<mapsto> f y1 y2)) ys m) xs m0 (a, b) =
     (if a \<in> set xs \<and> b \<in> set ys then Some (f a b) else m0 (a, b))"
  by (induction xs arbitrary: m0) (auto simp: fold_inner)

lemma YONI_COMPATIBILITY_eq:
  "YONI_COMPATIBILITY (y1, y2) =
     (if y1 \<in> set yoni_names \<and> y2 \<in> set yoni_names then Some (yoni_cell y1 y2) else None)"
  unfolding YONI_COMPATIBILITY_def yoni_names_def by (simp add: fold_outer)

lemma yoni_name: "map_of NAKSHATRA_TO_YONI n = Some y \<Longrightarrow> y \<in> set yoni_names"
  unfolding yoni_names_def by (drule map_of_value) simp

lemma yoni_score_eq:
  assumes "map_of NAKSHATRA_TO_YONI n1 = Some y1" "map_of NAKSHATRA_TO_YONI n2 = Some y2"
  shows "yoni_score n1 n2 = Inr (yoni_cell y1 y2)"
  using assms yoni_name [OF assms(1)] yoni_name [OF assms(2)]
  by (simp add: yoni_score_def getitem_Some YONI_COMPATIBILITY_eq)

lemma yoni_score_range:
  assumes "valid_nakshatra n1" "valid_nakshatra n2"
  shows "\<exists>v \<in> {0, 1, 2, 3, 4}. yoni_score n1 n2 = Inr v"
proof -
  from assms obtain y1 y2 where
    y: "map_of NAKSHATRA_TO_YONI n1 = Some y1" "map_of NAKSHATRA_TO_YONI n2 = Some y2"
    using NAKSHATRA_TO_YONI_keys by fastforce
  show ?thesis
    unfolding yoni_score_eq [OF y] using yoni_cell_range [of y1 y2] by simp
qed

lemma planet_lists:
  assumes "l \<in> {''Mars'', ''Venus'', ''Mercury'', ''Moon'', ''Sun'', ''Jupiter'', ''Saturn''}"
  shows "\<exists>rel f n e. map_of PLANET_RELATIONSHIPS l = Some rel \<and> map_of rel ''friends'' = Some f
           \<and> map_of rel ''neutral'' = Some n \<and> map_of rel ''enemies'' = Some e"
  using assms by (auto simp: PLANET_RELATIONSHIPS_def)

lemma maitri_score_range:
  assumes "valid_rashi r1" "valid_rashi r2"
  shows "\<exists>v \<in> {0, 1, 3, 4, 5}. maitri_score r1 r2 = Inr v"
proof -
  from assms obtain l1 l2 where
    l: "map_of RASHI_LORDS r1 = Some l1" "map_of RASHI_LORDS r2 = Some l2"
    using RASHI_LORDS_keys by fastforce
  from planet_lists [OF RASHI_LORDS_values [OF l(1)]] obtain rel f n e where
    "map_of PLANET_RELATIONSHIPS l1 = Some rel" "map_of rel ''friends'' = Some f"
    "map_of rel ''neutral'' = Some n" "map_of rel ''enemies'' = Some e"
    by auto
  with l show ?thesis
    by (simp add: maitri_score_def getitem_Some)
qed

lemma gana_score_range:
  assumes "valid_nakshatra n1" "valid_nakshatra n2"
  shows "\<exists>v \<in> {0, 1, 5, 6}. gana_score n1 n2 = Inr v"
proof -
  from assms obtain g1 g2 where
    g: "map_of NAKSHATRA_TO_GANA n1 = Some g1" "map_of NAKSHATRA_TO_GANA n2 = Some g2"
    using NAKSHATRA_TO_GANA_keys by fastforce
  have "get scoring_table (g1, g2) 0 = 0 \<or> get scoring_table (g1, g2) 0 \<in> snd ` set scoring_table"
    by (rule get_range)
  then have "get scoring_table (g1, g2) 0 \<in> {0, 1, 5, 6}"
    by (auto simp: scoring_table_def)
  with g show ?thesis
    by (simp add: gana_score_def getitem_Some)
qed

lemma bhakoot_score_range: "bhakoot_score r1 r2 \<in> {0, 7}"
proof -
  have "bhakoot_score r1 r2 = 0 \<or> bhakoot_score r1 r2 \<in> snd ` set BHAKOOT_MATRIX"
    unfolding bhakoot_score_def by (rule get_range)
  moreover have "snd ` set BHAKOOT_MATRIX \<subseteq> {0, 7}"
    by (simp add: BHAKOOT_MATRIX_def)
  ultimately show ?thesis by auto
qed

lemma nadi_score_range:
  assumes "valid_nakshatra n1" "valid_nakshatra n2"
  shows "\<exists>v \<in> {0, 8}. nadi_score n1 n2 = Inr v"
proof -
  from assms obtain a b where
    "map_of NAKSHATRA_TO_NADI n1 = Some a" "map_of NAKSHATRA_TO_NADI n2 = Some b"
    using NAKSHATRA_TO_NADI_keys by fastforce
  then show ?thesis
    by (simp add: nadi_score_def getitem_Some)
qed


section \<open>The shape of a result\<close>

lemma compatibility_ashtakoota_eq:
  assumes "varna_score br gr = Inr va" "vashya_score br gr = Inr vs"
    "yoni_score bn gn = Inr yo" "maitri_score br gr = Inr ma"
    "gana_score gn bn = Inr ga" "nadi_score bn gn = Inr na"
  shows "compatibility_ashtakoota br bn bp gr gn gp =
           Inr (ak_dict va vs (tara_score bn gn) yo ma ga (bhakoot_score br gr) na
                  (nadi_dosha_cancel br bn gr gn) (bhakoot_dosha_cancel br gr))"
  using assms by (simp add: compatibility_ashtakoota_def ak_dict_def)

lemma compatibility_ashtakoota_valid:
  assumes "valid_rashi br" "valid_rashi gr" "valid_nakshatra bn" "valid_nakshatra gn"
  shows "\<exists>va vs ta yo ma ga bh na.
           (va = 0 \<or> va = 1) \<and> (vs = 1 \<or> vs = 2) \<and> ta \<in> {0, 3 / 2, 3} \<and> yo \<in> {0, 1, 2, 3, 4}
           \<and> ma \<in> {0, 1, 3, 4, 5} \<and> ga \<in> {0, 1, 5, 6} \<and> bh \<in> {0, 7} \<and> na \<in> {0, 8}
           \<and> compatibility_ashtakoota br bn bp gr gn gp =
                Inr (ak_dict va vs ta yo ma ga bh na
                       (nadi_dosha_cancel br bn gr gn) (bhakoot_dosha_cancel br gr))"
proof -
  from varna_score_range [OF assms(1,2)] obtain va where
    va: "varna_score br gr = Inr va" "va = 0 \<or> va = 1" by auto
  from vashya_score_range [OF assms(1,2)] obtain vs where
    vs: "vashya_score br gr = Inr vs" "vs = 1 \<or> vs = 2" by auto
  from yoni_score_range [OF assms(3,4)] obtain yo where
    yo: "yoni_score bn gn = Inr yo" "yo \<in> {0, 1, 2, 3, 4}" by auto
  from maitri_score_range [OF assms(1,2)] obtain ma where
    ma: "maitri_score br gr = Inr ma" "ma \<in> {0, 1, 3, 4, 5}" by auto
  from gana_score_range [OF assms(4,3)] obtain ga where
    ga: "gana_score gn bn = Inr ga" "ga \<in> {0, 1, 5, 6}" by auto
  from nadi_score_range [OF assms(3,4)] obtain na where
    na: "nadi_score bn gn = Inr na" "na \<in> {0, 8}" by auto
  note eq = compatibility_ashtakoota_eq [OF va(1) vs(1) yo(1) ma(1) ga(1) na(1), of bp gp]
  have "(va = 0 \<or> va = 1) \<and> (vs = 1 \<or> vs = 2) \<and> tara_score bn gn \<in> {0, 3 / 2, 3}
          \<and> yo \<in> {0, 1, 2, 3, 4} \<and> ma \<in> {0, 1, 3, 4, 5} \<and> ga \<in> {0, 1, 5, 6}
          \<and> bhakoot_score br gr \<in> {0, 7} \<and> na \<in> {0, 8}
          \<and> compatibility_ashtakoota br bn bp gr gn gp =
                Inr (ak_dict va vs (tara_score bn gn) yo ma ga (bhakoot_score br gr) na
                       (nadi_dosha_cancel br bn gr gn) (bhakoot_dosha_cancel br gr))"
    by (intro conjI va(2) vs(2) yo(2) ma(2) ga(2) na(2) tara_score_range bhakoot_score_range eq)
  then show ?thesis by (intro exI)
qed


section \<open>Symmetric and asymmetric scorers\<close>

lemma tara_score_sym: "tara_score n1 n2 = tara_score n2 n1"
  by (simp add: tara_score_def Let_def conj_commute disj_commute)

lemma tara_score_spec: "tara_score n1 n2 = tara_spec n1 n2"
  by (simp add: tara_score_def tara_spec_def step_count_def remainder9_def
      favorable_remainder_def favorable_def Let_def)

lemma HIGHLY_INIMICAL_PAIRS_sym:
  "(a, b) \<in> set HIGHLY_INIMICAL_PAIRS \<Longrightarrow> (b, a) \<in> set HIGHLY_INIMICAL_PAIRS"
proof -
  have "\<forall>p \<in> set HIGHLY_INIMICAL_PAIRS. (snd p, fst p) \<in> set HIGHLY_INIMICAL_PAIRS"
    by (simp add: HIGHLY_INIMICAL_PAIRS_def)
  then show "(a, b) \<in> set HIGHLY_INIMICAL_PAIRS \<Longrightarrow> (b, a) \<in> set HIGHLY_INIMICAL_PAIRS"
    by force
qed

lemma yoni_cell_sym: "yoni_cell y1 y2 = yoni_cell y2 y1"
  unfolding yoni_cell_def using HIGHLY_INIMICAL_PAIRS_sym [of y1 y2] HIGHLY_INIMICAL_PAIRS_sym [of y2 y1]
  by auto

lemma yoni_score_sym:
  assumes "valid_nakshatra n1" "valid_nakshatra n2"
  shows "yoni_score n1 n2 = yoni_score n2 n1"
proof -
  from assms obtain y1 y2 where
    y: "map_of NAKSHATRA_TO_YONI n1 = Some y1" "map_of NAKSHATRA_TO_YONI n2 = Some y2"
    using NAKSHATRA_TO_YONI_keys by fastforce
  show ?thesis
    unfolding yoni_score_eq [OF y(1) y(2)] yoni_score_eq [OF y(2) y(1)]
    by (simp add: yoni_cell_sym [of y1 y2])
qed

lemma nadi_score_sym:
  assumes "valid_nakshatra n1" "valid_nakshatra n2"
  shows "nadi_score n1 n2 = nadi_score n2 n1"
proof -
  from assms obtain a b where
    "map_of NAKSHATRA_TO_NADI n1 = Some a" "map_of NAKSHATRA_TO_NADI n2 = Some b"
    using NAKSHATRA_TO_NADI_keys by fastforce
  then show ?thesis
    by (auto simp: nadi_score_def getitem_Some)
qed

lemma list_all_rashi:
  assumes "list_all P [1..12]" "valid_rashi r"
  shows "P r"
  using assms by (simp add: list_all_iff valid_rashi_def)

lemma vashya_score_sym_table:
  "list_all (\<lambda>r1. list_all (\<lambda>r2. vashya_score r1 r2 = vashya_score r2 r1) [1..12]) [1..12]"
  by code_simp

lemma vashya_score_sym:
  assumes "valid_rashi r1" "valid_rashi r2"
  shows "vashya_score r1 r2 = vashya_score r2 r1"
  using list_all_rashi [OF list_all_rashi [OF vashya_score_sym_table assms(1)] assms(2)] .

lemma bhakoot_score_sym_table:
  "list_all (\<lambda>r1. list_all (\<lambda>r2. bhakoot_score r1 r2 = bhakoot_score r2 r1) [1..12]) [1..12]"
  by code_simp

lemma bhakoot_score_sym:
  assumes "valid_rashi r1" "valid_rashi r2"
  shows "bhakoot_score r1 r2 = bhakoot_score r2 r1"
  using list_all_rashi [OF list_all_rashi [OF bhakoot_score_sym_table assms(1)] assms(2)] .

lemma varna_score_1_2: "varna_score 1 2 = Inr 1 \<and> varna_score 2 1 = Inr 0"
  by code_simp

lemma maitri_score_1_4: "maitri_score 1 4 = Inr 4 \<and> maitri_score 4 1 = Inr 3"
  by code_simp

lemma gana_score_1_3: "gana_score 1 3 = Inr 0 \<and> gana_score 3 1 = Inr 1"
  by code_simp


section \<open>Reading the entries of a result\<close>

lemma score_of_ak_dict:
  "score_of (ak_dict va vs ta yo ma ga bh na nc bc) ''Varna'' = Some va"
  "score_of (ak_dict va vs ta yo ma ga bh na nc bc) ''Vashya'' = Some vs"
  "score_of (ak_dict va vs ta yo ma ga bh na nc bc) ''Tara'' = Some ta"
  "score_of (ak_dict va vs ta yo ma ga bh na nc bc) ''Yoni'' = Some yo"
  "score_of (ak_dict va vs ta yo ma ga bh na nc bc) ''Maitri'' = Some ma"
  "score_of (ak_dict va vs ta yo ma ga bh na nc bc) ''Gana'' = Some ga"
  "score_of (ak_dict va vs ta yo ma ga bh na nc bc) ''Bhakoot'' = Some bh"
  "score_of (ak_dict va vs ta yo ma ga bh na nc bc) ''Nadi'' = Some na"
  by (simp_all add: score_of_def ak_dict_def)

lemma total_of_ak_dict:
  "total_of (ak_dict va vs ta yo ma ga bh na nc bc) = Some (va + vs + ta + yo + ma + ga + bh + na)"
  by (simp add: total_of_def ak_dict_def)

lemma get_total_ak_dict:
  "get_total (ak_dict va vs ta yo ma ga bh na nc bc) = va + vs + ta + yo + ma + ga + bh + na"
  by (simp add: get_total_def ak_dict_def)

lemma dosha_of_ak_dict:
  "dosha_of (ak_dict va vs ta yo ma ga bh na nc bc) ''Nadi'' = Some nc"
  "dosha_of (ak_dict va vs ta yo ma ga bh na nc bc) ''Bhakoot'' = Some bc"
  by (simp_all add: dosha_of_def ak_dict_def)

section \<open>Identical profiles\<close>

lemma VASHYA_SPECIAL_diag: "map_of VASHYA_SPECIAL (r, r) = None"
  by (simp add: map_of_eq_None_iff VASHYA_SPECIAL_def)

lemma bhakoot_score_diag_table: "list_all (\<lambda>r. bhakoot_score r r = 7) [1..12]"
  by code_simp

lemma scores_same_rashi:
  assumes "valid_rashi r"
  shows "varna_score r r = Inr 1" "vashya_score r r = Inr 2" "maitri_score r r = Inr 5"
    "bhakoot_score r r = 7"
proof -
  from assms obtain v where "map_of RASHI_TO_VARNA r = Some v"
    using RASHI_TO_VARNA_keys by fastforce
  then show "varna_score r r = Inr 1"
    by (simp add: varna_score_def getitem_Some)
  from assms obtain w where "map_of RASHI_TO_VASHYA r = Some w"
    using RASHI_TO_VASHYA_keys by fastforce
  then show "vashya_score r r = Inr 2"
    by (simp add: vashya_score_def getitem_Some VASHYA_SPECIAL_diag)
  from assms obtain l where "map_of RASHI_LORDS r = Some l"
    using RASHI_LORDS_keys by fastforce
  then show "maitri_score r r = Inr 5"
    by (simp add: maitri_score_def getitem_Some)
  show "bhakoot_score r r = 7"
    using list_all_rashi [OF bhakoot_score_diag_table assms] .
qed

lemma gana_same:
  assumes "g \<in> {''Deva'', ''Manushya'', ''Rakshasa''}"
  shows "get scoring_table (g, g) 0 = 6"
  using assms by (auto simp: get_def scoring_table_def)

lemma scores_same_nakshatra:
  assumes "valid_nakshatra n"
  shows "tara_score n n = 3" "yoni_score n n = Inr 4" "gana_score n n = Inr 6"
    "nadi_score n n = Inr 0"
proof -
  show "tara_score n n = 3"
    by (simp add: tara_score_def favorable_def)
  from assms obtain y where y: "map_of NAKSHATRA_TO_YONI n = Some y"
    using NAKSHATRA_TO_YONI_keys by fastforce
  show "yoni_score n n = Inr 4"
    unfolding yoni_score_eq [OF y y] by (simp add: yoni_cell_def)
  from assms obtain g where g: "map_of NAKSHATRA_TO_GANA n = Some g"
    using NAKSHATRA_TO_GANA_keys by fastforce
  show "gana_score n n = Inr 6"
    using g gana_same [OF NAKSHATRA_TO_GANA_values [OF g]]
    by (simp add: gana_score_def getitem_Some)
  from assms obtain a where "map_of NAKSHATRA_TO_NADI n = Some a"
    using NAKSHATRA_TO_NADI_keys by fastforce
  then show "nadi_score n n = Inr 0"
    by (simp add: nadi_score_def getitem_Some)
qed

lemma identical_ak:
  assumes "valid_rashi r" "valid_nakshatra n"
  shows "compatibility_ashtakoota r n p r n p' = Inr (ak_dict 1 2 3 4 5 6 7 0 True True)"
  using compatibility_ashtakoota_eq [OF scores_same_rashi(1,2) [OF assms(1)]
      scores_same_nakshatra(2) [OF assms(2)] scores_same_rashi(3) [OF assms(1)]
      scores_same_nakshatra(3,4) [OF assms(2)], of p p']
  by (simp add: scores_same_rashi(4) [OF assms(1)] scores_same_nakshatra(1) [OF assms(2)]
      nadi_dosha_cancel_def bhakoot_dosha_cancel_def)

lemma ak_dict_identical:
  "ak_dict 1 2 3 4 5 6 7 0 True True =
     [(''scores'', Scores [(''Varna'', 1), (''Vashya'', 2), (''Tara'', 3), (''Yoni'', 4),
                           (''Maitri'', 5), (''Gana'', 6), (''Bhakoot'', 7), (''Nadi'', 0)]),
      (''total'', Num 28),
      (''explanation'', Notes explanation0),
      (''dosha_cancellation'', Flags [(''Nadi'', True), (''Bhakoot'', True)])]"
  by (simp add: ak_dict_def)

lemma compute_love_identical:
  assumes "valid_rashi r" "valid_nakshatra n"
  shows "compute_ashtakoota_raw (Some ''love'') ug og
           \<lparr>moon_rashi = r, nakshatra = n, pada = p\<rparr> \<lparr>moon_rashi = r, nakshatra = n, pada = p\<rparr>
         = Inr (Some (ak_dict 1 2 3 4 5 6 7 0 True True))"
  by (simp add: compute_ashtakoota_raw_def run_ak_def identical_ak [OF assms])


section \<open>The animal classes that no classification names\<close>

lemma classified_names:
  "\<forall>p \<in> set FRIENDLY_PAIRS \<union> set ENEMY_PAIRS \<union> set HIGHLY_INIMICAL_PAIRS.
     fst p \<notin> {''Ashwa'', ''Shwan'', ''Vanara''} \<and> snd p \<notin> {''Ashwa'', ''Shwan'', ''Vanara''}"
  by (simp add: FRIENDLY_PAIRS_def ENEMY_PAIRS_def HIGHLY_INIMICAL_PAIRS_def)

lemma yoni_cell_neutral:
  assumes "y1 \<noteq> y2"
    and "y1 \<in> {''Ashwa'', ''Shwan'', ''Vanara''} \<or> y2 \<in> {''Ashwa'', ''Shwan'', ''Vanara''}"
  shows "yoni_cell y1 y2 = 2"
proof -
  have out: "(a, b) \<notin> set FRIENDLY_PAIRS \<union> set ENEMY_PAIRS \<union> set HIGHLY_INIMICAL_PAIRS"
    if "a \<in> {''Ashwa'', ''Shwan'', ''Vanara''} \<or> b \<in> {''Ashwa'', ''Shwan'', ''Vanara''}" for a b
  proof
    assume "(a, b) \<in> set FRIENDLY_PAIRS \<union> set ENEMY_PAIRS \<union> set HIGHLY_INIMICAL_PAIRS"
    with classified_names have
      "fst (a, b) \<notin> {''Ashwa'', ''Shwan'', ''Vanara''} \<and> snd (a, b) \<notin> {''Ashwa'', ''Shwan'', ''Vanara''}"
      by (rule bspec)
    with that show False by simp
  qed
  from assms(2) have "y2 \<in> {''Ashwa'', ''Shwan'', ''Vanara''} \<or> y1 \<in> {''Ashwa'', ''Shwan'', ''Vanara''}"
    by (rule disj_commute [THEN iffD1])
  from out [OF assms(2)] out [OF this] assms(1) show ?thesis
    by (simp add: yoni_cell_def)
qed

lemma yoni_score_1_2: "yoni_score 1 2 = Inr 2"
proof -
  have "map_of NAKSHATRA_TO_YONI 1 = Some ''Ashwa''" "map_of NAKSHATRA_TO_YONI 2 = Some ''Gaja''"
    by (simp_all add: NAKSHATRA_TO_YONI_def)
  then have "yoni_score 1 2 = Inr (yoni_cell ''Ashwa'' ''Gaja'')" by (rule yoni_score_eq)
  also have "yoni_cell ''Ashwa'' ''Gaja'' = 2" by (rule yoni_cell_neutral) simp_all
  finally show ?thesis .
qed

lemma yoni_score_2_1: "yoni_score 2 1 = Inr 2"
proof -
  have "map_of NAKSHATRA_TO_YONI 2 = Some ''Gaja''" "map_of NAKSHATRA_TO_YONI 1 = Some ''Ashwa''"
    by (simp_all add: NAKSHATRA_TO_YONI_def)
  then have "yoni_score 2 1 = Inr (yoni_cell ''Gaja'' ''Ashwa'')" by (rule yoni_score_eq)
  also have "yoni_cell ''Gaja'' ''Ashwa'' = 2" by (rule yoni_cell_neutral) simp_all
  finally show ?thesis .
qed

lemma yoni_score_1_3: "yoni_score 1 3 = Inr 2"
proof -
  have "map_of NAKSHATRA_TO_YONI 1 = Some ''Ashwa''" "map_of NAKSHATRA_TO_YONI 3 = Some ''Mesha''"
    by (simp_all add: NAKSHATRA_TO_YONI_def)
  then have "yoni_score 1 3 = Inr (yoni_cell ''Ashwa'' ''Mesha'')" by (rule yoni_score_eq)
  also have "yoni_cell ''Ashwa'' ''Mesha'' = 2" by (rule yoni_cell_neutral) simp_all
  finally show ?thesis .
qed

section \<open>Claims about the scorers\<close>

text \<open>
  C6. Tara: with \<open>d1 = (primary - secondary) mod 27\<close> (0 read as 27), \<open>rem1 = d1 mod 9\<close>
  (0 read as 9) and \<open>d2\<close>, \<open>rem2\<close> the same in the reverse direction, a remainder is
  favorable iff it is one of 2, 4, 6, 8, 9; the score is 3 when both remainders are
  favorable, 1.5 when exactly one is, and 0 when neither is. Hence the score does not
  change when the two asterisms are swapped. The property holds for all integers, in
  particular for asterisms between 1 and 27.
\<close>

theorem tara_rule:
  "tara_score primary secondary = tara_spec primary secondary
   \<and> tara_score primary secondary = tara_score secondary primary"
proof
  show "tara_score primary secondary = tara_spec primary secondary"
    by (rule tara_score_spec)
  show "tara_score primary secondary = tara_score secondary primary"
    by (rule tara_score_sym)
qed

text \<open>
  C10. The class names \<open>Ashwa\<close>, \<open>Shwan\<close> and \<open>Vanara\<close> that the asterism table uses
  occur in no pair of the friendly, enemy or highly inimical sets (which spell
  \<open>Ashva\<close>, \<open>Shvana\<close>, \<open>Vana\<close>, names that the asterism table never gives). So for two
  asterisms of different classes, one of them \<open>Ashwa\<close>, \<open>Shwan\<close> or \<open>Vanara\<close>, the
  Yoni score is the neutral 2.
\<close>

theorem yoni_neutral_fallthrough:
  assumes "map_of NAKSHATRA_TO_YONI n1 = Some y1" and "map_of NAKSHATRA_TO_YONI n2 = Some y2"
    and "y1 \<noteq> y2"
    and "y1 \<in> {''Ashwa'', ''Shwan'', ''Vanara''} \<or> y2 \<in> {''Ashwa'', ''Shwan'', ''Vanara''}"
  shows "(\<forall>p \<in> set FRIENDLY_PAIRS \<union> set ENEMY_PAIRS \<union> set HIGHLY_INIMICAL_PAIRS.
            fst p \<notin> {''Ashwa'', ''Shwan'', ''Vanara''} \<and> snd p \<notin> {''Ashwa'', ''Shwan'', ''Vanara''})
         \<and> ''Ashva'' \<notin> set yoni_names \<and> ''Shvana'' \<notin> set yoni_names \<and> ''Vana'' \<notin> set yoni_names
         \<and> yoni_score n1 n2 = Inr 2"
proof (intro conjI)
  show "\<forall>p \<in> set FRIENDLY_PAIRS \<union> set ENEMY_PAIRS \<union> set HIGHLY_INIMICAL_PAIRS.
          fst p \<notin> {''Ashwa'', ''Shwan'', ''Vanara''} \<and> snd p \<notin> {''Ashwa'', ''Shwan'', ''Vanara''}"
    by (rule classified_names)
  show "''Ashva'' \<notin> set yoni_names" "''Shvana'' \<notin> set yoni_names" "''Vana'' \<notin> set yoni_names"
    by (simp_all add: yoni_names_def NAKSHATRA_TO_YONI_def)
  show "yoni_score n1 n2 = Inr 2"
    unfolding yoni_score_eq [OF assms(1,2)] yoni_cell_neutral [OF assms(3,4)] ..
qed

theorem yoni_neutral_fallthrough_witness:
  "map_of NAKSHATRA_TO_YONI 1 = Some ''Ashwa'' \<and> map_of NAKSHATRA_TO_YONI 2 = Some ''Gaja''
   \<and> ''Ashwa'' \<noteq> ''Gaja'' \<and> yoni_score 1 2 = Inr 2"
proof -
  have n: "map_of NAKSHATRA_TO_YONI 1 = Some ''Ashwa''" "map_of NAKSHATRA_TO_YONI 2 = Some ''Gaja''"
    by (simp_all add: NAKSHATRA_TO_YONI_def)
  have d: "''Ashwa'' \<noteq> ''Gaja''" by simp
  have m: "''Ashwa'' \<in> {''Ashwa'', ''Shwan'', ''Vanara''} \<or> ''Gaja'' \<in> {''Ashwa'', ''Shwan'', ''Vanara''}"
    by simp
  from yoni_neutral_fallthrough [OF n d m] have "yoni_score 1 2 = Inr 2" by (elim conjE)
  with n d show ?thesis by (intro conjI)
qed


section \<open>The friendship block on a dictionary of the Romantic shape\<close>

lemma friendship_block_scores:
  "score_of (friendship_block (ak_dict va vs ta yo ma ga bh na nc bc)) ''Varna'' = Some va"
  "score_of (friendship_block (ak_dict va vs ta yo ma ga bh na nc bc)) ''Vashya'' = Some vs"
  "score_of (friendship_block (ak_dict va vs ta yo ma ga bh na nc bc)) ''Tara'' = Some ta"
  "score_of (friendship_block (ak_dict va vs ta yo ma ga bh na nc bc)) ''Yoni'' = Some 0"
  "score_of (friendship_block (ak_dict va vs ta yo ma ga bh na nc bc)) ''Maitri'' = Some ma"
  "score_of (friendship_block (ak_dict va vs ta yo ma ga bh na nc bc)) ''Gana'' = Some ga"
  "score_of (friendship_block (ak_dict va vs ta yo ma ga bh na nc bc)) ''Bhakoot'' =
     Some (min 7 (bh + yo))"
  "score_of (friendship_block (ak_dict va vs ta yo ma ga bh na nc bc)) ''Nadi'' = Some na"
  by (simp_all add: friendship_block_def ak_dict_def get_def score_of_def explanation0_def)

lemma friendship_block_total:
  "total_of (friendship_block (ak_dict va vs ta yo ma ga bh na nc bc)) =
     Some (va + vs + ta + 0 + ma + ga + min 7 (bh + yo) + na)"
  by (simp add: friendship_block_def ak_dict_def get_def total_of_def explanation0_def)

lemma friendship_block_note:
  "explanation_of (friendship_block (ak_dict va vs ta yo ma ga bh na nc bc)) ''Yoni'' =
     Some ''Not applicable for friendship. Yoni folded under emotional closeness.''"
  by (simp add: friendship_block_def ak_dict_def get_def explanation_of_def explanation0_def)

lemma friendship_block_keys:
  "map_of (friendship_block (ak_dict va vs ta yo ma ga bh na nc bc)) ''max_total'' = None"
  "map_of (ak_dict va vs ta yo ma ga bh na nc bc) ''max_total'' = None"
  by (simp_all add: friendship_block_def ak_dict_def get_def explanation0_def)

section \<open>The two orientations in compute_ashtakoota_raw\<close>

lemma compute_love_cases:
  assumes "run_ak a b = Inr ab" "run_ak b a = Inr ba"
  shows "compute_ashtakoota_raw (Some ''love'') ug og a b = Inr (Some ab)
         \<or> compute_ashtakoota_raw (Some ''love'') ug og a b = Inr (Some ba)"
  by (simp add: compute_ashtakoota_raw_def assms)

lemma compute_friendship_cases:
  assumes "run_ak a b = Inr ab" "run_ak b a = Inr ba"
  shows "compute_ashtakoota_raw (Some ''friendship'') ug og a b = Inr (Some (friendship_block ab))
         \<or> compute_ashtakoota_raw (Some ''friendship'') ug og a b = Inr (Some (friendship_block ba))"
  by (simp add: compute_ashtakoota_raw_def hetero_love_def assms)

section \<open>Some evaluations\<close>

lemma ak_1_1_vs_1_3:
  "compatibility_ashtakoota 1 1 p 1 3 p' = Inr (ak_dict 1 2 (3 / 2) 2 5 1 7 8 True True)"
proof -
  have r: "valid_rashi 1" by (simp add: valid_rashi_def)
  have t: "tara_score 1 3 = 3 / 2" by (simp add: tara_score_def favorable_def)
  have na: "nadi_score 1 3 = Inr 8" by code_simp
  show ?thesis
    using compatibility_ashtakoota_eq [OF scores_same_rashi(1,2) [OF r] yoni_score_1_3
        scores_same_rashi(3) [OF r] gana_score_1_3 [THEN conjunct2] na, of p p']
    by (simp add: t scores_same_rashi(4) [OF r] nadi_dosha_cancel_def bhakoot_dosha_cancel_def)
qed

lemma yoni_score_3_1: "yoni_score 3 1 = Inr 2"
  using yoni_score_sym [of 3 1] yoni_score_1_3 by (simp add: valid_nakshatra_def)

lemma ak_1_3_vs_1_1:
  "compatibility_ashtakoota 1 3 p 1 1 p' = Inr (ak_dict 1 2 (3 / 2) 2 5 0 7 8 True True)"
proof -
  have r: "valid_rashi 1" by (simp add: valid_rashi_def)
  have t: "tara_score 3 1 = 3 / 2" by (simp add: tara_score_def favorable_def)
  have na: "nadi_score 3 1 = Inr 8" by code_simp
  show ?thesis
    using compatibility_ashtakoota_eq [OF scores_same_rashi(1,2) [OF r] yoni_score_3_1
        scores_same_rashi(3) [OF r] gana_score_1_3 [THEN conjunct1] na, of p p']
    by (simp add: t scores_same_rashi(4) [OF r] nadi_dosha_cancel_def bhakoot_dosha_cancel_def)
qed

lemma ak_1_1_vs_2_2:
  "compatibility_ashtakoota 1 1 p 2 2 p' = Inr (ak_dict 1 2 (3 / 2) 2 3 5 0 8 False False)"
proof -
  have t: "tara_score 1 2 = 3 / 2" by (simp add: tara_score_def favorable_def)
  have vs: "vashya_score 1 2 = Inr 2" by code_simp
  have ma: "maitri_score 1 2 = Inr 3" by code_simp
  have ga: "gana_score 2 1 = Inr 5" by code_simp
  have bh: "bhakoot_score 1 2 = 0" by code_simp
  have na: "nadi_score 1 2 = Inr 8" by code_simp
  show ?thesis
    using compatibility_ashtakoota_eq [OF varna_score_1_2 [THEN conjunct1] vs yoni_score_1_2
        ma ga na, of p p']
    by (simp add: t bh nadi_dosha_cancel_def bhakoot_dosha_cancel_def)
qed

lemma ak_2_2_vs_1_1:
  "compatibility_ashtakoota 2 2 p 1 1 p' = Inr (ak_dict 0 2 (3 / 2) 2 3 6 0 8 False False)"
proof -
  have t: "tara_score 2 1 = 3 / 2" by (simp add: tara_score_def favorable_def)
  have vs: "vashya_score 2 1 = Inr 2" by code_simp
  have ma: "maitri_score 2 1 = Inr 3" by code_simp
  have ga: "gana_score 1 2 = Inr 6" by code_simp
  have bh: "bhakoot_score 2 1 = 0" by code_simp
  have na: "nadi_score 2 1 = Inr 8" by code_simp
  show ?thesis
    using compatibility_ashtakoota_eq [OF varna_score_1_2 [THEN conjunct2] vs yoni_score_2_1
        ma ga na, of p p']
    by (simp add: t bh nadi_dosha_cancel_def bhakoot_dosha_cancel_def)
qed


text \<open>
  C5. Two identical valid profiles, scored in the Romantic shape (in either orientation,
  which is the same call), give Varna 1, Vashya 2, Tara 3, Yoni 4, Maitri 5, Gana 6,
  Bhakoot 7, Nadi 0 and the total 28, with both cancellation flags true; the romantic
  evaluation of \<open>compute_ashtakoota_raw\<close> returns this dictionary whatever the genders.
\<close>

theorem identical_profiles:
  assumes "valid_rashi r" and "valid_nakshatra n" and "valid_pada p"
  shows "compatibility_ashtakoota r n p r n p =
           Inr [(''scores'', Scores [(''Varna'', 1), (''Vashya'', 2), (''Tara'', 3), (''Yoni'', 4),
                                     (''Maitri'', 5), (''Gana'', 6), (''Bhakoot'', 7), (''Nadi'', 0)]),
                (''total'', Num 28),
                (''explanation'', Notes explanation0),
                (''dosha_cancellation'', Flags [(''Nadi'', True), (''Bhakoot'', True)])]
         \<and> compute_ashtakoota_raw (Some ''love'') user_gender other_gender
             \<lparr>moon_rashi = r, nakshatra = n, pada = p\<rparr> \<lparr>moon_rashi = r, nakshatra = n, pada = p\<rparr> =
           Inr (Some [(''scores'', Scores [(''Varna'', 1), (''Vashya'', 2), (''Tara'', 3), (''Yoni'', 4),
                                     (''Maitri'', 5), (''Gana'', 6), (''Bhakoot'', 7), (''Nadi'', 0)]),
                (''total'', Num 28),
                (''explanation'', Notes explanation0),
                (''dosha_cancellation'', Flags [(''Nadi'', True), (''Bhakoot'', True)])])"
  unfolding ak_dict_identical [symmetric]
  using identical_ak [OF assms(1,2), of p p]
    compute_love_identical [OF assms(1,2), of user_gender other_gender p]
  by (intro conjI)

theorem identical_profiles_witness:
  "valid_rashi 7 \<and> valid_nakshatra 15 \<and> valid_pada 3
   \<and> compatibility_ashtakoota 7 15 3 7 15 3 =
           Inr [(''scores'', Scores [(''Varna'', 1), (''Vashya'', 2), (''Tara'', 3), (''Yoni'', 4),
                                     (''Maitri'', 5), (''Gana'', 6), (''Bhakoot'', 7), (''Nadi'', 0)]),
                (''total'', Num 28),
                (''explanation'', Notes explanation0),
                (''dosha_cancellation'', Flags [(''Nadi'', True), (''Bhakoot'', True)])]"
proof -
  have v: "valid_rashi 7" "valid_nakshatra 15" "valid_pada 3"
    by (simp_all add: valid_rashi_def valid_nakshatra_def valid_pada_def)
  note r = identical_profiles [OF v, where user_gender = None and other_gender = None]
  from v r [THEN conjunct1] show ?thesis by (intro conjI)
qed

text \<open>
  C7. For valid profiles the result carries \<open>Nadi\<close> cancelled iff the signs are equal or
  the asterisms are equal, and \<open>Bhakoot\<close> cancelled iff the signs are equal. The scores
  of the result are exactly the values of the eight scorers, which take no flag, and the
  total is their sum: no flag alters a score or the total.
\<close>

theorem dosha_flags:
  assumes "valid_rashi br" and "valid_rashi gr" and "valid_nakshatra bn" and "valid_nakshatra gn"
  shows "\<exists>va vs yo ma ga na.
           varna_score br gr = Inr va \<and> vashya_score br gr = Inr vs \<and> yoni_score bn gn = Inr yo
           \<and> maitri_score br gr = Inr ma \<and> gana_score gn bn = Inr ga \<and> nadi_score bn gn = Inr na
           \<and> compatibility_ashtakoota br bn bp gr gn gp =
               Inr [(''scores'', Scores [(''Varna'', va), (''Vashya'', vs),
                                         (''Tara'', tara_score bn gn), (''Yoni'', yo),
                                         (''Maitri'', ma), (''Gana'', ga),
                                         (''Bhakoot'', bhakoot_score br gr), (''Nadi'', na)]),
                    (''total'', Num (va + vs + tara_score bn gn + yo + ma + ga
                                      + bhakoot_score br gr + na)),
                    (''explanation'', Notes explanation0),
                    (''dosha_cancellation'',
                       Flags [(''Nadi'', br = gr \<or> bn = gn), (''Bhakoot'', br = gr)])]"
proof -
  from varna_score_range [OF assms(1,2)] obtain va where va: "varna_score br gr = Inr va" by auto
  from vashya_score_range [OF assms(1,2)] obtain vs where vs: "vashya_score br gr = Inr vs" by auto
  from yoni_score_range [OF assms(3,4)] obtain yo where yo: "yoni_score bn gn = Inr yo" by auto
  from maitri_score_range [OF assms(1,2)] obtain ma where ma: "maitri_score br gr = Inr ma" by auto
  from gana_score_range [OF assms(4,3)] obtain ga where ga: "gana_score gn bn = Inr ga" by auto
  from nadi_score_range [OF assms(3,4)] obtain na where na: "nadi_score bn gn = Inr na" by auto
  have flags: "nadi_dosha_cancel br bn gr gn \<longleftrightarrow> br = gr \<or> bn = gn"
    "bhakoot_dosha_cancel br gr \<longleftrightarrow> br = gr"
    by (auto simp: nadi_dosha_cancel_def bhakoot_dosha_cancel_def)
  have "compatibility_ashtakoota br bn bp gr gn gp =
               Inr [(''scores'', Scores [(''Varna'', va), (''Vashya'', vs),
                                         (''Tara'', tara_score bn gn), (''Yoni'', yo),
                                         (''Maitri'', ma), (''Gana'', ga),
                                         (''Bhakoot'', bhakoot_score br gr), (''Nadi'', na)]),
                    (''total'', Num (va + vs + tara_score bn gn + yo + ma + ga
                                      + bhakoot_score br gr + na)),
                    (''explanation'', Notes explanation0),
                    (''dosha_cancellation'',
                       Flags [(''Nadi'', br = gr \<or> bn = gn), (''Bhakoot'', br = gr)])]"
    unfolding compatibility_ashtakoota_eq [OF va vs yo ma ga na] ak_dict_def flags ..
  with va vs yo ma ga na show ?thesis by (intro exI conjI)
qed

theorem dosha_flags_witness:
  "valid_rashi 1 \<and> valid_rashi 2 \<and> valid_nakshatra 1 \<and> valid_nakshatra 2
   \<and> (\<exists>ak. compatibility_ashtakoota 1 1 1 2 2 1 = Inr ak
            \<and> dosha_of ak ''Nadi'' = Some False \<and> dosha_of ak ''Bhakoot'' = Some False)"
proof -
  have v: "valid_rashi 1" "valid_rashi 2" "valid_nakshatra 1" "valid_nakshatra 2"
    by (simp_all add: valid_rashi_def valid_nakshatra_def)
  from dosha_flags [OF v, of 1 1] obtain ak where
    "compatibility_ashtakoota 1 1 1 2 2 1 = Inr ak" "dosha_of ak ''Nadi'' = Some False"
    "dosha_of ak ''Bhakoot'' = Some False"
    by (auto simp: dosha_of_def)
  with v show ?thesis by (intro conjI exI)
qed


text \<open>
  C8, as the specification states it, makes Varna order-insensitive. The code gives
  \<open>varna_score 1 2 = 1\<close> (Aries is Kshatriya, rank 3; Taurus is Vaishya, rank 2) and
  \<open>varna_score 2 1 = 0\<close>.
\<close>

theorem varna_order_sensitive:
  "valid_rashi 1 \<and> valid_rashi 2 \<and> varna_score 1 2 = Inr 1 \<and> varna_score 2 1 = Inr 0"
  using varna_score_1_2 by (simp add: valid_rashi_def)

text \<open>
  C8, amended. Three scorers are order-sensitive: Varna, Maitri and Gana each have a
  valid pair whose score changes when primary and secondary are swapped. The other
  five, Vashya, Tara, Yoni, Bhakoot and Nadi, are order-insensitive: for every valid
  pair the swap leaves the score unchanged.
\<close>

theorem order_sensitivity:
  "(\<exists>r1 r2. valid_rashi r1 \<and> valid_rashi r2 \<and> varna_score r1 r2 \<noteq> varna_score r2 r1)
   \<and> (\<exists>r1 r2. valid_rashi r1 \<and> valid_rashi r2 \<and> maitri_score r1 r2 \<noteq> maitri_score r2 r1)
   \<and> (\<exists>n1 n2. valid_nakshatra n1 \<and> valid_nakshatra n2 \<and> gana_score n1 n2 \<noteq> gana_score n2 n1)
   \<and> (\<forall>r1 r2. valid_rashi r1 \<and> valid_rashi r2 \<longrightarrow>
          vashya_score r1 r2 = vashya_score r2 r1 \<and> bhakoot_score r1 r2 = bhakoot_score r2 r1)
   \<and> (\<forall>n1 n2. valid_nakshatra n1 \<and> valid_nakshatra n2 \<longrightarrow>
          tara_score n1 n2 = tara_score n2 n1 \<and> yoni_score n1 n2 = yoni_score n2 n1
          \<and> nadi_score n1 n2 = nadi_score n2 n1)"
proof (intro conjI)
  have r: "valid_rashi 1" "valid_rashi 2" "valid_rashi 4"
    by (simp_all add: valid_rashi_def)
  have n: "valid_nakshatra 1" "valid_nakshatra 3"
    by (simp_all add: valid_nakshatra_def)
  have "varna_score 1 2 \<noteq> varna_score 2 1"
    using varna_score_1_2 by simp
  with r show "\<exists>r1 r2. valid_rashi r1 \<and> valid_rashi r2 \<and> varna_score r1 r2 \<noteq> varna_score r2 r1"
    by (intro exI conjI)
  have "maitri_score 1 4 \<noteq> maitri_score 4 1"
    using maitri_score_1_4 by simp
  with r show "\<exists>r1 r2. valid_rashi r1 \<and> valid_rashi r2 \<and> maitri_score r1 r2 \<noteq> maitri_score r2 r1"
    by (intro exI conjI)
  have "gana_score 1 3 \<noteq> gana_score 3 1"
    using gana_score_1_3 by simp
  with n show "\<exists>n1 n2. valid_nakshatra n1 \<and> valid_nakshatra n2 \<and> gana_score n1 n2 \<noteq> gana_score n2 n1"
    by (intro exI conjI)
  show "\<forall>r1 r2. valid_rashi r1 \<and> valid_rashi r2 \<longrightarrow>
          vashya_score r1 r2 = vashya_score r2 r1 \<and> bhakoot_score r1 r2 = bhakoot_score r2 r1"
    using vashya_score_sym bhakoot_score_sym by simp
  show "\<forall>n1 n2. valid_nakshatra n1 \<and> valid_nakshatra n2 \<longrightarrow>
          tara_score n1 n2 = tara_score n2 n1 \<and> yoni_score n1 n2 = yoni_score n2 n1
          \<and> nadi_score n1 n2 = nadi_score n2 n1"
    using tara_score_sym yoni_score_sym nadi_score_sym by simp
qed

theorem order_sensitivity_witness:
  "valid_rashi 3 \<and> valid_rashi 11 \<and> vashya_score 3 11 = vashya_score 11 3
   \<and> bhakoot_score 3 11 = bhakoot_score 11 3
   \<and> valid_nakshatra 5 \<and> valid_nakshatra 20 \<and> tara_score 5 20 = tara_score 20 5
   \<and> yoni_score 5 20 = yoni_score 20 5 \<and> nadi_score 5 20 = nadi_score 20 5"
proof -
  have r: "valid_rashi 3 \<and> valid_rashi 11"
    by (simp add: valid_rashi_def)
  have n: "valid_nakshatra 5 \<and> valid_nakshatra 20"
    by (simp add: valid_nakshatra_def)
  note s = order_sensitivity [THEN conjunct2, THEN conjunct2, THEN conjunct2]
  from s [THEN conjunct1, rule_format, OF r] s [THEN conjunct2, rule_format, OF n] r n
  show ?thesis by simp
qed

text \<open>
  C9, as the specification states it, makes a primary of the Deva class with a
  secondary of the Rakshasa class score 0. In the code the boy is the primary;
  asterism 1 is Deva and asterism 3 is Rakshasa, and the pair scores Gana 1.
\<close>

theorem gana_primary_deva_secondary_rakshasa:
  "map_of NAKSHATRA_TO_GANA 1 = Some ''Deva'' \<and> map_of NAKSHATRA_TO_GANA 3 = Some ''Rakshasa''
   \<and> compatibility_ashtakoota 1 1 1 1 3 1 =
       Inr [(''scores'', Scores [(''Varna'', 1), (''Vashya'', 2), (''Tara'', 3 / 2), (''Yoni'', 2),
                                 (''Maitri'', 5), (''Gana'', 1), (''Bhakoot'', 7), (''Nadi'', 8)]),
            (''total'', Num (55 / 2)),
            (''explanation'', Notes explanation0),
            (''dosha_cancellation'', Flags [(''Nadi'', True), (''Bhakoot'', True)])]"
proof -
  have g: "map_of NAKSHATRA_TO_GANA 1 = Some ''Deva''" "map_of NAKSHATRA_TO_GANA 3 = Some ''Rakshasa''"
    by (simp_all add: NAKSHATRA_TO_GANA_def)
  with ak_1_1_vs_1_3 [of 1 1] show ?thesis by (simp add: ak_dict_def)
qed

text \<open>
  C9, amended. \<open>gana_score\<close> reads its fixed, asymmetric 3x3 table with the
  temperament of the secondary (the girl) first and that of the primary (the boy)
  second. A primary of the Deva class with a secondary of the Rakshasa class scores 1,
  and the swapped pair (primary Rakshasa, secondary Deva) scores 0: the two orientations
  score differently.
\<close>

theorem gana_orientation:
  assumes "valid_rashi br" and "valid_rashi gr"
    and "map_of NAKSHATRA_TO_GANA d = Some ''Deva''"
    and "map_of NAKSHATRA_TO_GANA f = Some ''Rakshasa''"
  shows "get scoring_table (''Deva'', ''Rakshasa'') 0 = 0
         \<and> get scoring_table (''Rakshasa'', ''Deva'') 0 = 1
         \<and> (\<exists>ak. compatibility_ashtakoota br d bp gr f gp = Inr ak \<and> score_of ak ''Gana'' = Some 1)
         \<and> (\<exists>ak. compatibility_ashtakoota br f bp gr d gp = Inr ak \<and> score_of ak ''Gana'' = Some 0)"
proof (intro conjI)
  show t: "get scoring_table (''Deva'', ''Rakshasa'') 0 = 0"
    "get scoring_table (''Rakshasa'', ''Deva'') 0 = 1"
    by (simp_all add: get_def scoring_table_def)
  have v: "valid_nakshatra d" "valid_nakshatra f"
    using assms(3,4) NAKSHATRA_TO_GANA_keys [of d] NAKSHATRA_TO_GANA_keys [of f] by auto
  have gana: "gana_score f d = Inr 1" "gana_score d f = Inr 0"
    using assms(3,4) t by (simp_all add: gana_score_def getitem_Some)
  have "\<exists>ak. compatibility_ashtakoota br x bp gr y gp = Inr ak \<and> score_of ak ''Gana'' = Some ga"
    if "valid_nakshatra x" "valid_nakshatra y" "gana_score y x = Inr ga" for x y ga
  proof -
    from varna_score_range [OF assms(1,2)] obtain va where va: "varna_score br gr = Inr va" by auto
    from vashya_score_range [OF assms(1,2)] obtain vs where vs: "vashya_score br gr = Inr vs" by auto
    from yoni_score_range [OF that(1,2)] obtain yo where yo: "yoni_score x y = Inr yo" by auto
    from maitri_score_range [OF assms(1,2)] obtain ma where ma: "maitri_score br gr = Inr ma" by auto
    from nadi_score_range [OF that(1,2)] obtain na where na: "nadi_score x y = Inr na" by auto
    from compatibility_ashtakoota_eq [OF va vs yo ma that(3) na] score_of_ak_dict(6)
    show ?thesis by (intro exI conjI)
  qed
  note ex = this
  show "\<exists>ak. compatibility_ashtakoota br d bp gr f gp = Inr ak \<and> score_of ak ''Gana'' = Some 1"
    by (rule ex [OF v(1) v(2) gana(1)])
  show "\<exists>ak. compatibility_ashtakoota br f bp gr d gp = Inr ak \<and> score_of ak ''Gana'' = Some 0"
    by (rule ex [OF v(2) v(1) gana(2)])
qed

theorem gana_orientation_witness:
  "valid_rashi 1 \<and> valid_rashi 1
   \<and> map_of NAKSHATRA_TO_GANA 1 = Some ''Deva'' \<and> map_of NAKSHATRA_TO_GANA 3 = Some ''Rakshasa''
   \<and> (\<exists>ak. compatibility_ashtakoota 1 1 1 1 3 1 = Inr ak \<and> score_of ak ''Gana'' = Some 1)
   \<and> (\<exists>ak. compatibility_ashtakoota 1 3 1 1 1 1 = Inr ak \<and> score_of ak ''Gana'' = Some 0)"
proof -
  have r: "valid_rashi 1" by (simp add: valid_rashi_def)
  have g: "map_of NAKSHATRA_TO_GANA 1 = Some ''Deva''" "map_of NAKSHATRA_TO_GANA 3 = Some ''Rakshasa''"
    by (simp_all add: NAKSHATRA_TO_GANA_def)
  note w = gana_orientation [OF r r g, where bp = 1 and gp = 1, THEN conjunct2, THEN conjunct2]
  from r g w [THEN conjunct1] w [THEN conjunct2] show ?thesis by (intro conjI)
qed

text \<open>
  C4, as the specification states it, rejects a quarter outside 1 to 4. The code never
  reads the quarter: with the boy's quarter 9 the evaluation returns a result.
\<close>

theorem pada_out_of_range_accepted:
  "\<not> valid_pada 9
   \<and> compatibility_ashtakoota 1 1 9 1 1 1 =
       Inr [(''scores'', Scores [(''Varna'', 1), (''Vashya'', 2), (''Tara'', 3), (''Yoni'', 4),
                                 (''Maitri'', 5), (''Gana'', 6), (''Bhakoot'', 7), (''Nadi'', 0)]),
            (''total'', Num 28),
            (''explanation'', Notes explanation0),
            (''dosha_cancellation'', Flags [(''Nadi'', True), (''Bhakoot'', True)])]"
proof -
  have "valid_rashi 1" "valid_nakshatra 1"
    by (simp_all add: valid_rashi_def valid_nakshatra_def)
  from identical_ak [OF this, of 9 1] show ?thesis
    by (simp add: ak_dict_identical valid_pada_def)
qed

text \<open>
  C4, amended. The function has no validation step. A sign outside 1 to 12 or an
  asterism outside 1 to 27 makes the evaluation fail with the \<open>KeyError\<close> of the first
  table lookup that meets it, in the order boy's sign, girl's sign (both in the Varna
  scorer), boy's asterism, girl's asterism (both in the Yoni scorer); the exception
  carries the value, and no score is returned. The quarters are never read, so their
  values, in range or not, do not change the outcome.
\<close>

theorem out_of_range_input:
  "(\<not> valid_rashi br \<longrightarrow>
      compatibility_ashtakoota br bn bp gr gn gp = Inl (KeyError (KInt br)))
   \<and> (valid_rashi br \<and> \<not> valid_rashi gr \<longrightarrow>
      compatibility_ashtakoota br bn bp gr gn gp = Inl (KeyError (KInt gr)))
   \<and> (valid_rashi br \<and> valid_rashi gr \<and> \<not> valid_nakshatra bn \<longrightarrow>
      compatibility_ashtakoota br bn bp gr gn gp = Inl (KeyError (KInt bn)))
   \<and> (valid_rashi br \<and> valid_rashi gr \<and> valid_nakshatra bn \<and> \<not> valid_nakshatra gn \<longrightarrow>
      compatibility_ashtakoota br bn bp gr gn gp = Inl (KeyError (KInt gn)))
   \<and> compatibility_ashtakoota br bn bp gr gn gp = compatibility_ashtakoota br bn bp' gr gn gp'"
proof (intro conjI impI)
  assume "\<not> valid_rashi br"
  then have "varna_score br gr = Inl (KeyError (KInt br))"
    by (simp add: varna_score_def getitem_None RASHI_TO_VARNA_keys)
  then show "compatibility_ashtakoota br bn bp gr gn gp = Inl (KeyError (KInt br))"
    by (simp add: compatibility_ashtakoota_def)
next
  assume a: "valid_rashi br \<and> \<not> valid_rashi gr"
  then obtain v where "map_of RASHI_TO_VARNA br = Some v"
    using RASHI_TO_VARNA_keys by fastforce
  with a have "varna_score br gr = Inl (KeyError (KInt gr))"
    by (simp add: varna_score_def getitem_Some getitem_None RASHI_TO_VARNA_keys)
  then show "compatibility_ashtakoota br bn bp gr gn gp = Inl (KeyError (KInt gr))"
    by (simp add: compatibility_ashtakoota_def)
next
  assume a: "valid_rashi br \<and> valid_rashi gr \<and> \<not> valid_nakshatra bn"
  from a varna_score_range [of br gr] obtain va where va: "varna_score br gr = Inr va" by auto
  from a vashya_score_range [of br gr] obtain vs where vs: "vashya_score br gr = Inr vs" by auto
  from a have "yoni_score bn gn = Inl (KeyError (KInt bn))"
    by (simp add: yoni_score_def getitem_None NAKSHATRA_TO_YONI_keys)
  with va vs show "compatibility_ashtakoota br bn bp gr gn gp = Inl (KeyError (KInt bn))"
    by (simp add: compatibility_ashtakoota_def)
next
  assume a: "valid_rashi br \<and> valid_rashi gr \<and> valid_nakshatra bn \<and> \<not> valid_nakshatra gn"
  from a varna_score_range [of br gr] obtain va where va: "varna_score br gr = Inr va" by auto
  from a vashya_score_range [of br gr] obtain vs where vs: "vashya_score br gr = Inr vs" by auto
  from a obtain y where "map_of NAKSHATRA_TO_YONI bn = Some y"
    using NAKSHATRA_TO_YONI_keys by fastforce
  with a have "yoni_score bn gn = Inl (KeyError (KInt gn))"
    by (simp add: yoni_score_def getitem_Some getitem_None NAKSHATRA_TO_YONI_keys)
  with va vs show "compatibility_ashtakoota br bn bp gr gn gp = Inl (KeyError (KInt gn))"
    by (simp add: compatibility_ashtakoota_def)
next
  show "compatibility_ashtakoota br bn bp gr gn gp = compatibility_ashtakoota br bn bp' gr gn gp'"
    by (simp add: compatibility_ashtakoota_def)
qed

theorem out_of_range_input_witness:
  "\<not> valid_rashi 0 \<and> compatibility_ashtakoota 0 1 1 1 1 1 = Inl (KeyError (KInt 0))
   \<and> valid_rashi 1 \<and> \<not> valid_rashi 13
   \<and> compatibility_ashtakoota 1 1 1 13 1 1 = Inl (KeyError (KInt 13))
   \<and> valid_rashi 2 \<and> \<not> valid_nakshatra 28
   \<and> compatibility_ashtakoota 1 28 1 2 1 1 = Inl (KeyError (KInt 28))
   \<and> valid_nakshatra 27 \<and> \<not> valid_nakshatra (- 1)
   \<and> compatibility_ashtakoota 1 27 1 2 (- 1) 1 = Inl (KeyError (KInt (- 1)))"
proof -
  have v: "\<not> valid_rashi 0" "valid_rashi 1" "\<not> valid_rashi 13" "valid_rashi 2"
    "\<not> valid_nakshatra 28" "valid_nakshatra 27" "\<not> valid_nakshatra (- 1)"
    by (simp_all add: valid_rashi_def valid_nakshatra_def)
  note a = out_of_range_input [where br = 0 and bn = 1 and bp = 1 and gr = 1 and gn = 1 and gp = 1,
      THEN conjunct1, rule_format, OF v(1)]
  note b = out_of_range_input [where br = 1 and bn = 1 and bp = 1 and gr = 13 and gn = 1 and gp = 1,
      THEN conjunct2, THEN conjunct1, rule_format, OF conjI [OF v(2) v(3)]]
  note c = out_of_range_input [where br = 1 and bn = 28 and bp = 1 and gr = 2 and gn = 1 and gp = 1,
      THEN conjunct2, THEN conjunct2, THEN conjunct1,
      rule_format, OF conjI [OF v(2) conjI [OF v(4) v(5)]]]
  note d = out_of_range_input [where br = 1 and bn = 27 and bp = 1 and gr = 2 and gn = "- 1" and gp = 1,
      THEN conjunct2, THEN conjunct2, THEN conjunct2, THEN conjunct1, rule_format,
      OF conjI [OF v(2) conjI [OF v(4) conjI [OF v(6) v(7)]]]]
  from v a b c d show ?thesis by (intro conjI)
qed


section \<open>Claims about compute_ashtakoota_raw\<close>

lemma romantic_dict_ok:
  assumes "va = 0 \<or> va = 1" "vs = 1 \<or> vs = 2" "ta \<in> {0, 3 / 2, 3}" "yo \<in> {0, 1, 2, 3, 4}"
    "ma \<in> {0, 1, 3, 4, 5}" "ga \<in> {0, 1, 5, 6}" "bh \<in> {0, 7}" "na \<in> {0, 8}"
  shows "documented_sets_romantic (ak_dict va vs ta yo ma ga bh na nc bc)"
proof -
  have "0 \<le> va \<and> va \<le> 1" using assms(1) by auto
  moreover have "0 \<le> vs \<and> vs \<le> 2" using assms(2) by auto
  moreover have "0 \<le> ta \<and> ta \<le> 3" using assms(3) by auto
  moreover have "0 \<le> yo \<and> yo \<le> 4" using assms(4) by auto
  moreover have "0 \<le> ma \<and> ma \<le> 5" using assms(5) by auto
  moreover have "0 \<le> ga \<and> ga \<le> 6" using assms(6) by auto
  moreover have "0 \<le> bh \<and> bh \<le> 7" using assms(7) by auto
  moreover have "0 \<le> na \<and> na \<le> 8" using assms(8) by auto
  ultimately have "0 \<le> va + vs + ta + yo + ma + ga + bh + na \<and> va + vs + ta + yo + ma + ga + bh + na \<le> 36"
    by linarith
  with assms show ?thesis
    unfolding documented_sets_romantic_def score_of_ak_dict total_of_ak_dict by simp
qed

lemma friendship_dict_ok:
  assumes "va = 0 \<or> va = 1" "vs = 1 \<or> vs = 2" "ta \<in> {0, 3 / 2, 3}" "yo \<in> {0, 1, 2, 3, 4}"
    "ma \<in> {0, 1, 3, 4, 5}" "ga \<in> {0, 1, 5, 6}" "bh \<in> {0, 7}" "na \<in> {0, 8}"
  shows "documented_sets_friendship (friendship_block (ak_dict va vs ta yo ma ga bh na nc bc))"
proof -
  have "0 \<le> va \<and> va \<le> 1" using assms(1) by auto
  moreover have "0 \<le> vs \<and> vs \<le> 2" using assms(2) by auto
  moreover have "0 \<le> ta \<and> ta \<le> 3" using assms(3) by auto
  moreover have "0 \<le> yo \<and> yo \<le> 4" using assms(4) by auto
  moreover have "0 \<le> ma \<and> ma \<le> 5" using assms(5) by auto
  moreover have "0 \<le> ga \<and> ga \<le> 6" using assms(6) by auto
  moreover have "0 \<le> bh \<and> bh \<le> 7" using assms(7) by auto
  moreover have "0 \<le> na \<and> na \<le> 8" using assms(8) by auto
  ultimately have t: "0 \<le> va + vs + ta + 0 + ma + ga + min 7 (bh + yo) + na
      \<and> va + vs + ta + 0 + ma + ga + min 7 (bh + yo) + na \<le> 32"
    by linarith
  have f: "min 7 (bh + yo) \<in> {0, 1, 2, 3, 4, 7}"
    using assms(4,7) by auto
  from assms(1,2,3,5,6,8) t f show ?thesis
    unfolding documented_sets_friendship_def friendship_block_scores friendship_block_total
    by simp
qed

lemma valid_profiles_run_ak:
  assumes "valid_profile a" "valid_profile b"
  shows "\<exists>va vs ta yo ma ga bh na nc bc.
           (va = 0 \<or> va = 1) \<and> (vs = 1 \<or> vs = 2) \<and> ta \<in> {0, 3 / 2, 3} \<and> yo \<in> {0, 1, 2, 3, 4}
           \<and> ma \<in> {0, 1, 3, 4, 5} \<and> ga \<in> {0, 1, 5, 6} \<and> bh \<in> {0, 7} \<and> na \<in> {0, 8}
           \<and> run_ak a b = Inr (ak_dict va vs ta yo ma ga bh na nc bc)"
proof -
  from assms have v: "valid_rashi (moon_rashi a)" "valid_rashi (moon_rashi b)"
    "valid_nakshatra (nakshatra a)" "valid_nakshatra (nakshatra b)"
    by (simp_all add: valid_profile_def)
  from compatibility_ashtakoota_valid [OF v, of "pada a" "pada b"] obtain va vs ta yo ma ga bh na
    where "(va = 0 \<or> va = 1) \<and> (vs = 1 \<or> vs = 2) \<and> ta \<in> {0, 3 / 2, 3} \<and> yo \<in> {0, 1, 2, 3, 4}
           \<and> ma \<in> {0, 1, 3, 4, 5} \<and> ga \<in> {0, 1, 5, 6} \<and> bh \<in> {0, 7} \<and> na \<in> {0, 8}
           \<and> run_ak a b = Inr (ak_dict va vs ta yo ma ga bh na
                 (nadi_dosha_cancel (moon_rashi a) (nakshatra a) (moon_rashi b) (nakshatra b))
                 (bhakoot_dosha_cancel (moon_rashi a) (moon_rashi b)))"
    unfolding run_ak_def by (elim exE)
  then show ?thesis by (intro exI)
qed

text \<open>
  C1, as the specification states it, puts Bhakoot in \<open>{0, 7}\<close> for either report kind.
  For the valid Friendship pair (sign 1, asterism 1) and (sign 2, asterism 2) both
  orientations total 22.5 with Bhakoot 0 and Yoni 2, and the result has Bhakoot 2.
\<close>

theorem friendship_bhakoot_outside_set:
  "valid_profile \<lparr>moon_rashi = 1, nakshatra = 1, pada = 1\<rparr>
   \<and> valid_profile \<lparr>moon_rashi = 2, nakshatra = 2, pada = 1\<rparr>
   \<and> score_of (returned (compute_ashtakoota_raw (Some ''friendship'') None None
        \<lparr>moon_rashi = 1, nakshatra = 1, pada = 1\<rparr> \<lparr>moon_rashi = 2, nakshatra = 2, pada = 1\<rparr>))
        ''Bhakoot'' = Some 2"
  by (simp add: valid_profile_def valid_rashi_def valid_nakshatra_def valid_pada_def
      compute_ashtakoota_raw_def hetero_love_def run_ak_def ak_1_1_vs_2_2 ak_2_2_vs_1_1
      get_total_ak_dict returned_def friendship_block_scores)

text \<open>
  C1, amended. For every valid pair of profiles: a Romantic result has every factor in
  its documented set (Varna 0 or 1; Vashya 1 or 2, never 0; Tara 0, 1.5 or 3; Yoni 0 to
  4; Maitri 0, 1, 3, 4 or 5; Gana 0, 1, 5 or 6; Bhakoot 0 or 7; Nadi 0 or 8) and a total
  between 0 and 36. A Friendship result has the same sets for the six untouched
  factors, Yoni 0, Bhakoot (which has taken Yoni in) in 0, 1, 2, 3, 4 or 7, and a total
  between 0 and 32.
\<close>

theorem scores_in_documented_sets:
  assumes "valid_profile a" and "valid_profile b"
  shows "(\<exists>ak. compute_ashtakoota_raw (Some ''love'') user_gender other_gender a b = Inr (Some ak)
            \<and> documented_sets_romantic ak)
         \<and> (\<exists>ak. compute_ashtakoota_raw (Some ''friendship'') user_gender other_gender a b
                   = Inr (Some ak)
            \<and> documented_sets_friendship ak)"
proof -
  from valid_profiles_run_ak [OF assms] obtain va vs ta yo ma ga bh na nc bc where
    ab: "va = 0 \<or> va = 1" "vs = 1 \<or> vs = 2" "ta \<in> {0, 3 / 2, 3}" "yo \<in> {0, 1, 2, 3, 4}"
      "ma \<in> {0, 1, 3, 4, 5}" "ga \<in> {0, 1, 5, 6}" "bh \<in> {0, 7}" "na \<in> {0, 8}"
    and run_ab: "run_ak a b = Inr (ak_dict va vs ta yo ma ga bh na nc bc)"
    by (elim exE conjE)
  from valid_profiles_run_ak [OF assms(2,1)] obtain va' vs' ta' yo' ma' ga' bh' na' nc' bc' where
    ba: "va' = 0 \<or> va' = 1" "vs' = 1 \<or> vs' = 2" "ta' \<in> {0, 3 / 2, 3}" "yo' \<in> {0, 1, 2, 3, 4}"
      "ma' \<in> {0, 1, 3, 4, 5}" "ga' \<in> {0, 1, 5, 6}" "bh' \<in> {0, 7}" "na' \<in> {0, 8}"
    and run_ba: "run_ak b a = Inr (ak_dict va' vs' ta' yo' ma' ga' bh' na' nc' bc')"
    by (elim exE conjE)
  note r1 = romantic_dict_ok [OF ab, of nc bc] and r2 = romantic_dict_ok [OF ba, of nc' bc']
  note f1 = friendship_dict_ok [OF ab, of nc bc] and f2 = friendship_dict_ok [OF ba, of nc' bc']
  from compute_love_cases [OF run_ab run_ba, of user_gender other_gender] r1 r2
  have love: "\<exists>ak. compute_ashtakoota_raw (Some ''love'') user_gender other_gender a b = Inr (Some ak)
            \<and> documented_sets_romantic ak"
    by (elim disjE) (intro exI conjI, assumption, assumption)+
  from compute_friendship_cases [OF run_ab run_ba, of user_gender other_gender] f1 f2
  have friend: "\<exists>ak. compute_ashtakoota_raw (Some ''friendship'') user_gender other_gender a b
                   = Inr (Some ak) \<and> documented_sets_friendship ak"
    by (elim disjE) (intro exI conjI, assumption, assumption)+
  from love friend show ?thesis by (rule conjI)
qed

theorem scores_in_documented_sets_witness:
  "valid_profile \<lparr>moon_rashi = 1, nakshatra = 1, pada = 1\<rparr>
   \<and> valid_profile \<lparr>moon_rashi = 2, nakshatra = 2, pada = 1\<rparr>
   \<and> (\<exists>ak. compute_ashtakoota_raw (Some ''love'') None None
              \<lparr>moon_rashi = 1, nakshatra = 1, pada = 1\<rparr> \<lparr>moon_rashi = 2, nakshatra = 2, pada = 1\<rparr>
            = Inr (Some ak) \<and> documented_sets_romantic ak)
   \<and> (\<exists>ak. compute_ashtakoota_raw (Some ''friendship'') None None
              \<lparr>moon_rashi = 1, nakshatra = 1, pada = 1\<rparr> \<lparr>moon_rashi = 2, nakshatra = 2, pada = 1\<rparr>
            = Inr (Some ak) \<and> documented_sets_friendship ak)"
proof -
  have v: "valid_profile \<lparr>moon_rashi = 1, nakshatra = 1, pada = 1\<rparr>"
    "valid_profile \<lparr>moon_rashi = 2, nakshatra = 2, pada = 1\<rparr>"
    by (simp_all add: valid_profile_def valid_rashi_def valid_nakshatra_def valid_pada_def)
  note s = scores_in_documented_sets [OF v, where user_gender = None and other_gender = None]
  from v s [THEN conjunct1] s [THEN conjunct2] show ?thesis by (intro conjI)
qed


text \<open>
  C2. Role resolution. For a Romantic (love) report with one male and one female
  profile, the male profile is evaluated as primary (boy) and the female as secondary,
  and the result is that single evaluation. In every other case with a known report
  kind (same gender, a gender that is missing or neither male nor female, or Friendship)
  both orientations (A,B) and (B,A) are evaluated; the orientation with the strictly
  higher total is kept, and (A,B) is kept on a tie. A Friendship result is the
  friendship block applied to the kept orientation.
\<close>

theorem role_resolution:
  "(run_ak a b = Inr ab \<longrightarrow>
      compute_ashtakoota_raw (Some ''love'') (Some ''male'') (Some ''female'') a b = Inr (Some ab))
   \<and> (run_ak b a = Inr ba \<longrightarrow>
      compute_ashtakoota_raw (Some ''love'') (Some ''female'') (Some ''male'') a b = Inr (Some ba))
   \<and> (run_ak a b = Inr ab \<and> run_ak b a = Inr ba
       \<and> compatibility_type \<in> {Some ''love'', Some ''friendship''}
       \<and> \<not> (compatibility_type = Some ''love''
            \<and> (user_gender = Some ''male'' \<and> other_gender = Some ''female''
               \<or> user_gender = Some ''female'' \<and> other_gender = Some ''male''))
      \<longrightarrow> compute_ashtakoota_raw compatibility_type user_gender other_gender a b =
            Inr (Some (let kept = (if get_total ab < get_total ba then ba else ab)
                       in if compatibility_type = Some ''friendship''
                          then friendship_block kept else kept)))"
proof (intro conjI impI)
  assume "run_ak a b = Inr ab"
  then show "compute_ashtakoota_raw (Some ''love'') (Some ''male'') (Some ''female'') a b
               = Inr (Some ab)"
    by (simp add: compute_ashtakoota_raw_def hetero_love_def)
next
  assume "run_ak b a = Inr ba"
  then show "compute_ashtakoota_raw (Some ''love'') (Some ''female'') (Some ''male'') a b
               = Inr (Some ba)"
    by (simp add: compute_ashtakoota_raw_def hetero_love_def)
next
  assume h: "run_ak a b = Inr ab \<and> run_ak b a = Inr ba
       \<and> compatibility_type \<in> {Some ''love'', Some ''friendship''}
       \<and> \<not> (compatibility_type = Some ''love''
            \<and> (user_gender = Some ''male'' \<and> other_gender = Some ''female''
               \<or> user_gender = Some ''female'' \<and> other_gender = Some ''male''))"
  then have nh: "\<not> hetero_love compatibility_type user_gender other_gender"
    unfolding hetero_love_def by auto
  from h have run: "run_ak a b = Inr ab" "run_ak b a = Inr ba"
    and ct: "compatibility_type = Some ''love'' \<or> compatibility_type = Some ''friendship''"
    by simp_all
  from ct show "compute_ashtakoota_raw compatibility_type user_gender other_gender a b =
            Inr (Some (let kept = (if get_total ab < get_total ba then ba else ab)
                       in if compatibility_type = Some ''friendship''
                          then friendship_block kept else kept))"
  proof
    assume "compatibility_type = Some ''love''"
    with nh run show ?thesis
      by (simp add: compute_ashtakoota_raw_def not_less)
  next
    assume "compatibility_type = Some ''friendship''"
    with nh run show ?thesis
      by (simp add: compute_ashtakoota_raw_def not_less)
  qed
qed

theorem role_resolution_witness:
  "run_ak \<lparr>moon_rashi = 1, nakshatra = 3, pada = 1\<rparr> \<lparr>moon_rashi = 1, nakshatra = 1, pada = 1\<rparr>
     = Inr (ak_dict 1 2 (3 / 2) 2 5 0 7 8 True True)
   \<and> run_ak \<lparr>moon_rashi = 1, nakshatra = 1, pada = 1\<rparr> \<lparr>moon_rashi = 1, nakshatra = 3, pada = 1\<rparr>
     = Inr (ak_dict 1 2 (3 / 2) 2 5 1 7 8 True True)
   \<and> get_total (ak_dict 1 2 (3 / 2) 2 5 0 7 8 True True) = 53 / 2
   \<and> get_total (ak_dict 1 2 (3 / 2) 2 5 1 7 8 True True) = 55 / 2
   \<and> compute_ashtakoota_raw (Some ''love'') (Some ''male'') (Some ''female'')
        \<lparr>moon_rashi = 1, nakshatra = 3, pada = 1\<rparr> \<lparr>moon_rashi = 1, nakshatra = 1, pada = 1\<rparr>
     = Inr (Some (ak_dict 1 2 (3 / 2) 2 5 0 7 8 True True))
   \<and> compute_ashtakoota_raw (Some ''love'') (Some ''female'') (Some ''male'')
        \<lparr>moon_rashi = 1, nakshatra = 3, pada = 1\<rparr> \<lparr>moon_rashi = 1, nakshatra = 1, pada = 1\<rparr>
     = Inr (Some (ak_dict 1 2 (3 / 2) 2 5 1 7 8 True True))
   \<and> compute_ashtakoota_raw (Some ''love'') (Some ''female'') None
        \<lparr>moon_rashi = 1, nakshatra = 3, pada = 1\<rparr> \<lparr>moon_rashi = 1, nakshatra = 1, pada = 1\<rparr>
     = Inr (Some (ak_dict 1 2 (3 / 2) 2 5 1 7 8 True True))
   \<and> compute_ashtakoota_raw (Some ''love'') (Some ''male'') (Some ''male'')
        \<lparr>moon_rashi = 1, nakshatra = 1, pada = 1\<rparr> \<lparr>moon_rashi = 1, nakshatra = 3, pada = 1\<rparr>
     = Inr (Some (ak_dict 1 2 (3 / 2) 2 5 1 7 8 True True))"
proof -
  let ?a = "\<lparr>moon_rashi = 1, nakshatra = 3, pada = 1\<rparr>"
  let ?b = "\<lparr>moon_rashi = 1, nakshatra = 1, pada = 1\<rparr>"
  let ?ab = "ak_dict 1 2 (3 / 2) 2 5 0 7 8 True True"
  let ?ba = "ak_dict 1 2 (3 / 2) 2 5 1 7 8 True True"
  have ab: "run_ak ?a ?b = Inr ?ab" by (simp add: run_ak_def ak_1_3_vs_1_1)
  have ba: "run_ak ?b ?a = Inr ?ba" by (simp add: run_ak_def ak_1_1_vs_1_3)
  have t: "get_total ?ab = 53 / 2" "get_total ?ba = 55 / 2"
    by (simp_all add: get_total_ak_dict)
  note r = role_resolution [where a = ?a and b = ?b and ab = ?ab and ba = ?ba]
  have 1: "compute_ashtakoota_raw (Some ''love'') (Some ''male'') (Some ''female'') ?a ?b
             = Inr (Some ?ab)"
    using r [THEN conjunct1] ab by simp
  have 2: "compute_ashtakoota_raw (Some ''love'') (Some ''female'') (Some ''male'') ?a ?b
             = Inr (Some ?ba)"
    using r [THEN conjunct2, THEN conjunct1] ba by simp
  have 3: "compute_ashtakoota_raw (Some ''love'') (Some ''female'') None ?a ?b = Inr (Some ?ba)"
    using role_resolution [where a = ?a and b = ?b and ab = ?ab and ba = ?ba
        and compatibility_type = "Some ''love''" and user_gender = "Some ''female''"
        and other_gender = None, THEN conjunct2, THEN conjunct2] ab ba t
    by simp
  have 4: "compute_ashtakoota_raw (Some ''love'') (Some ''male'') (Some ''male'') ?b ?a
             = Inr (Some ?ba)"
    using role_resolution [where a = ?b and b = ?a and ab = ?ba and ba = ?ab
        and compatibility_type = "Some ''love''" and user_gender = "Some ''male''"
        and other_gender = "Some ''male''", THEN conjunct2, THEN conjunct2] ab ba t
    by simp
  from ab ba t 1 2 3 4 show ?thesis by (intro conjI)
qed

text \<open>
  C3, as the specification states it, gives a Friendship result \<open>max_total\<close> 32 and a
  Romantic result \<open>max_total\<close> 36. The dictionaries of the code have no such entry:
  for two identical profiles (sign 1, asterism 1) the Friendship result has total 24 and
  the Romantic result total 28, and neither has a key \<open>max_total\<close>.
\<close>

theorem no_max_total_entry:
  "total_of (returned (compute_ashtakoota_raw (Some ''friendship'') None None
      \<lparr>moon_rashi = 1, nakshatra = 1, pada = 1\<rparr> \<lparr>moon_rashi = 1, nakshatra = 1, pada = 1\<rparr>)) = Some 24
   \<and> map_of (returned (compute_ashtakoota_raw (Some ''friendship'') None None
      \<lparr>moon_rashi = 1, nakshatra = 1, pada = 1\<rparr> \<lparr>moon_rashi = 1, nakshatra = 1, pada = 1\<rparr>))
        ''max_total'' = None
   \<and> total_of (returned (compute_ashtakoota_raw (Some ''love'') None None
      \<lparr>moon_rashi = 1, nakshatra = 1, pada = 1\<rparr> \<lparr>moon_rashi = 1, nakshatra = 1, pada = 1\<rparr>)) = Some 28
   \<and> map_of (returned (compute_ashtakoota_raw (Some ''love'') None None
      \<lparr>moon_rashi = 1, nakshatra = 1, pada = 1\<rparr> \<lparr>moon_rashi = 1, nakshatra = 1, pada = 1\<rparr>))
        ''max_total'' = None"
proof -
  have "valid_rashi 1" "valid_nakshatra 1"
    by (simp_all add: valid_rashi_def valid_nakshatra_def)
  note ak = identical_ak [OF this]
  show ?thesis
    by (simp add: compute_ashtakoota_raw_def hetero_love_def run_ak_def ak returned_def
        friendship_block_total friendship_block_keys total_of_ak_dict)
qed

text \<open>
  C3, amended. When the report kind is Friendship the result is the friendship block
  applied to a dictionary scored in the Romantic shape, and a Romantic result is such a
  dictionary unchanged. The block makes the Bhakoot score \<open>min 7 (Bhakoot + Yoni)\<close> and
  the Yoni score 0, leaves the other six scores, replaces the Yoni note by one saying
  that Yoni is folded under emotional closeness, and recomputes the total as the sum of
  the eight scores (one of them the zeroed Yoni). Neither kind of result has an entry
  \<open>max_total\<close>. In particular Bhakoot 5 with Yoni 3 gives Bhakoot 7 and Yoni 0, and
  Bhakoot 2 with Yoni 1 gives Bhakoot 3 and Yoni 0.
\<close>

theorem friendship_fold:
  "score_of (friendship_block (ak_dict va vs ta yo ma ga bh na nc bc)) ''Bhakoot''
     = Some (min 7 (bh + yo))
   \<and> score_of (friendship_block (ak_dict va vs ta yo ma ga bh na nc bc)) ''Yoni'' = Some 0
   \<and> score_of (friendship_block (ak_dict va vs ta yo ma ga bh na nc bc)) ''Varna'' = Some va
   \<and> score_of (friendship_block (ak_dict va vs ta yo ma ga bh na nc bc)) ''Vashya'' = Some vs
   \<and> score_of (friendship_block (ak_dict va vs ta yo ma ga bh na nc bc)) ''Tara'' = Some ta
   \<and> score_of (friendship_block (ak_dict va vs ta yo ma ga bh na nc bc)) ''Maitri'' = Some ma
   \<and> score_of (friendship_block (ak_dict va vs ta yo ma ga bh na nc bc)) ''Gana'' = Some ga
   \<and> score_of (friendship_block (ak_dict va vs ta yo ma ga bh na nc bc)) ''Nadi'' = Some na
   \<and> explanation_of (friendship_block (ak_dict va vs ta yo ma ga bh na nc bc)) ''Yoni''
       = Some ''Not applicable for friendship. Yoni folded under emotional closeness.''
   \<and> total_of (friendship_block (ak_dict va vs ta yo ma ga bh na nc bc))
       = Some (va + vs + ta + 0 + ma + ga + min 7 (bh + yo) + na)
   \<and> map_of (friendship_block (ak_dict va vs ta yo ma ga bh na nc bc)) ''max_total'' = None
   \<and> map_of (ak_dict va vs ta yo ma ga bh na nc bc) ''max_total'' = None
   \<and> (run_ak a b = Inr ab \<and> run_ak b a = Inr ba \<longrightarrow>
        (compute_ashtakoota_raw (Some ''friendship'') user_gender other_gender a b
           = Inr (Some (friendship_block ab))
         \<or> compute_ashtakoota_raw (Some ''friendship'') user_gender other_gender a b
           = Inr (Some (friendship_block ba)))
        \<and> (compute_ashtakoota_raw (Some ''love'') user_gender other_gender a b = Inr (Some ab)
           \<or> compute_ashtakoota_raw (Some ''love'') user_gender other_gender a b = Inr (Some ba)))"
  using compute_friendship_cases [of a b ab ba user_gender other_gender]
    compute_love_cases [of a b ab ba user_gender other_gender]
  by (intro conjI impI friendship_block_scores friendship_block_note friendship_block_total
      friendship_block_keys) (elim conjE, assumption)+

theorem friendship_fold_witness:
  "score_of (friendship_block (ak_dict 1 2 3 3 5 6 5 8 False False)) ''Bhakoot'' = Some 7
   \<and> score_of (friendship_block (ak_dict 1 2 3 3 5 6 5 8 False False)) ''Yoni'' = Some 0
   \<and> score_of (friendship_block (ak_dict 1 2 3 1 5 6 2 8 False False)) ''Bhakoot'' = Some 3
   \<and> score_of (friendship_block (ak_dict 1 2 3 1 5 6 2 8 False False)) ''Yoni'' = Some 0
   \<and> run_ak \<lparr>moon_rashi = 1, nakshatra = 1, pada = 1\<rparr> \<lparr>moon_rashi = 1, nakshatra = 1, pada = 1\<rparr>
       = Inr (ak_dict 1 2 3 4 5 6 7 0 True True)
   \<and> compute_ashtakoota_raw (Some ''friendship'') None None
        \<lparr>moon_rashi = 1, nakshatra = 1, pada = 1\<rparr> \<lparr>moon_rashi = 1, nakshatra = 1, pada = 1\<rparr>
       = Inr (Some (friendship_block (ak_dict 1 2 3 4 5 6 7 0 True True)))
   \<and> compute_ashtakoota_raw (Some ''love'') None None
        \<lparr>moon_rashi = 1, nakshatra = 1, pada = 1\<rparr> \<lparr>moon_rashi = 1, nakshatra = 1, pada = 1\<rparr>
       = Inr (Some (ak_dict 1 2 3 4 5 6 7 0 True True))"
proof -
  let ?p = "\<lparr>moon_rashi = 1, nakshatra = 1, pada = 1\<rparr>"
  let ?d = "ak_dict 1 2 3 4 5 6 7 0 True True"
  have "valid_rashi 1" "valid_nakshatra 1"
    by (simp_all add: valid_rashi_def valid_nakshatra_def)
  then have run: "run_ak ?p ?p = Inr ?d"
    by (simp add: run_ak_def identical_ak)
  note x = friendship_fold [where bh = 5 and yo = 3 and va = 1 and vs = 2 and ta = 3 and ma = 5
      and ga = 6 and na = 8 and nc = False and bc = False]
  note y = friendship_fold [where bh = 2 and yo = 1 and va = 1 and vs = 2 and ta = 3 and ma = 5
      and ga = 6 and na = 8 and nc = False and bc = False]
  note z = friendship_fold [where a = ?p and b = ?p and ab = ?d and ba = ?d
      and user_gender = None and other_gender = None]
  have 1: "score_of (friendship_block (ak_dict 1 2 3 3 5 6 5 8 False False)) ''Bhakoot'' = Some 7"
    using x [THEN conjunct1] by simp
  have 2: "score_of (friendship_block (ak_dict 1 2 3 3 5 6 5 8 False False)) ''Yoni'' = Some 0"
    using x [THEN conjunct2, THEN conjunct1] .
  have 3: "score_of (friendship_block (ak_dict 1 2 3 1 5 6 2 8 False False)) ''Bhakoot'' = Some 3"
    using y [THEN conjunct1] by simp
  have 4: "score_of (friendship_block (ak_dict 1 2 3 1 5 6 2 8 False False)) ''Yoni'' = Some 0"
    using y [THEN conjunct2, THEN conjunct1] .
  have 5: "compute_ashtakoota_raw (Some ''friendship'') None None ?p ?p
             = Inr (Some (friendship_block ?d))"
    and 6: "compute_ashtakoota_raw (Some ''love'') None None ?p ?p = Inr (Some ?d)"
    using z run by simp_all
  from 1 2 3 4 run 5 6 show ?thesis by (intro conjI)
qed

end
